theory Spec2Isabelle
  imports Main "HOL-Library.Log_Nat"
begin

section \<open>JavaScript values used by the forms\<close>

subsection \<open>Strings\<close>

text \<open>
  A JavaScript string is a sequence of 16-bit code units. The model is a \<open>string\<close>, one
  \<open>char\<close> per code unit, and so covers the strings whose code units lie below 256. A
  string is truthy when it is not empty.
\<close>

text \<open>The code units below 256 that \<open>trim\<close> strips: TAB, LF, VT, FF, CR, SPACE and the
  no-break space U+00A0.\<close>

definition isWhiteSpace :: "char \<Rightarrow> bool" where
  "isWhiteSpace c = (of_char c \<in> set [9, 10, 11, 12, 13, 32, 160 :: nat])"

definition trim :: "string \<Rightarrow> string" where
  "trim s = rev (dropWhile isWhiteSpace (rev (dropWhile isWhiteSpace s)))"

text \<open>
  \<open>toUpperCase\<close> on the code units below 256: \<open>a\<close>..\<open>z\<close> and U+00E0..U+00FE (but the
  division sign U+00F7) move down by 32, the sharp s U+00DF becomes \<open>SS\<close>, every other
  unit stays. The upper case of the micro sign U+00B5 and of U+00FF lies above 255,
  outside the model, which leaves the two units as they are; the properties below are
  stated for strings without them.
\<close>

definition toUpperCase_unit :: "char \<Rightarrow> string" where
  "toUpperCase_unit c =
     (let n = (of_char c :: nat)
      in if (97 \<le> n \<and> n \<le> 122) \<or> (224 \<le> n \<and> n \<le> 254 \<and> n \<noteq> 247)
         then [char_of (n - 32)]
         else if n = 223 then ''SS''
         else [c])"

definition toUpperCase :: "string \<Rightarrow> string" where
  "toUpperCase s = concat (map toUpperCase_unit s)"

text \<open>The strings on which the model of \<open>toUpperCase\<close> is the JavaScript function.\<close>

definition upperCase_in_model :: "string \<Rightarrow> bool" where
  "upperCase_in_model s = list_all (\<lambda>c. of_char c \<noteq> (181 :: nat) \<and> of_char c \<noteq> (255 :: nat)) s"

text \<open>\<open>s.substring(start, end)\<close>: both indices are clamped to the length, and swapped
  when \<open>start > end\<close>.\<close>

definition substring :: "string \<Rightarrow> nat \<Rightarrow> nat \<Rightarrow> string" where
  "substring s start end =
     (let a = min start end; b = max start end in take (b - a) (drop a s))"

text \<open>The decimal rendering of a non-negative integer inside a template literal.\<close>

fun string_of_nat :: "nat \<Rightarrow> string" where
  "string_of_nat n =
     (if n < 10 then [char_of (48 + n)]
      else string_of_nat (n div 10) @ [char_of (48 + n mod 10)])"

declare string_of_nat.simps [simp del]

subsection \<open>Numbers\<close>

text \<open>
  A finite JavaScript number is the rational it denotes. Every arithmetic result is
  rounded to the nearest binary64 value, ties to even (53 significant bits); overflow
  to \<open>Infinity\<close>, subnormals and \<open>NaN\<close> are outside the model.
\<close>

type_synonym number = rat

definition roundTiesToEven :: "rat \<Rightarrow> int" where
  "roundTiesToEven x =
     (let f = \<lfloor>x\<rfloor>; r = x - of_int f
      in if r < 1 / 2 then f
         else if 1 / 2 < r then f + 1
         else if even f then f else f + 1)"

text \<open>\<open>ilog2 x\<close> is the exponent \<open>e\<close> with \<open>2^e \<le> x < 2^(e+1)\<close>, for \<open>x > 0\<close>.\<close>

definition ilog2 :: "rat \<Rightarrow> int" where
  "ilog2 x =
     (let (n, d) = quotient_of x; k = bitlen n - bitlen d
      in if 2 powi k \<le> x then k else k - 1)"

definition toDouble :: "rat \<Rightarrow> number" where
  "toDouble x =
     (if x = 0 then 0
      else let a = \<bar>x\<bar>; u = 2 powi (ilog2 a - 52)
           in sgn x * of_int (roundTiesToEven (a / u)) * u)"

definition js_times :: "number \<Rightarrow> number \<Rightarrow> number" where
  "js_times x y = toDouble (x * y)"

text \<open>The literals \<open>1.2\<close> and \<open>0.7\<close> of the source are the doubles nearest to them.\<close>

definition lit_1_2 :: number where
  "lit_1_2 = toDouble (12 / 10)"

definition lit_0_7 :: number where
  "lit_0_7 = toDouble (7 / 10)"

text \<open>
  The numbers for which the products with \<open>1.2\<close> and \<open>0.7\<close> are the ones JavaScript
  computes: zero, and the doubles of a magnitude between \<open>2^-1000\<close> and \<open>2^1000\<close>, whose
  products stay in the normal range.
\<close>

definition in_model_range :: "rat \<Rightarrow> bool" where
  "in_model_range x =
     (x = 0 \<or> (toDouble x = x \<and> 2 powi (- 1000) \<le> \<bar>x\<bar> \<and> \<bar>x\<bar> \<le> 2 powi 1000))"

subsection \<open>Toasts\<close>

datatype toast_variant = Default | Destructive

record toast =
  title :: string
  description :: string
  variant :: toast_variant

section \<open>The product form (ProductForm.tsx)\<close>

subsection \<open>Form values and component state\<close>

record dimensions_t =
  dim_length :: "number option"
  dim_width :: "number option"
  dim_height :: "number option"

text \<open>\<open>ProductFormValues\<close>, the type inferred from \<open>productFormSchema\<close>; \<open>None\<close>
  stands for \<open>null\<close> or \<open>undefined\<close>.\<close>

record productFormValues =
  name :: string
  description :: "string option"
  purchasePrice :: "number option"
  sellingPrice :: number
  mrp :: "number option"
  gst :: "number option"
  sku :: "string option"
  barcode :: "string option"
  weight :: "number option"
  dimensions :: "dimensions_t option"
  inventoryQuantity :: "number option"
  status :: string
  categoryId :: "number option"
  featuredImageUrl :: "string option"
  images :: "string list"
  tags :: "string list"

text \<open>One row of \<open>generatedVariants\<close>, as the generator builds it.\<close>

record variant_t =
  v_id :: string
  v_color :: string
  v_size :: string
  v_sku :: string
  v_sellingPrice :: number
  v_mrp :: number
  v_purchasePrice :: number
  v_gst :: number
  v_inventoryQuantity :: number
  v_images :: "string list"
  v_imageUrl :: "string option"

record bulkEditData_t =
  bulk_sellingPrice :: "number option"
  bulk_mrp :: "number option"
  bulk_inventoryQuantity :: "number option"

text \<open>The \<open>useState\<close> cells of the component, with the values of the form.\<close>

record productFormState =
  activeTab :: string
  tag :: string
  isSubmitting :: bool
  activeSection :: "string option"
  selectedColors :: "string list"
  selectedSizes :: "string list"
  generatedVariants :: "variant_t list"
  customColor :: string
  customSize :: string
  bulkEditMode :: bool
  bulkEditData :: bulkEditData_t
  selectedVariants :: "string list"
  productForm :: productFormValues

text \<open>The initial state of a form opened without a product.\<close>

definition defaultValues :: productFormValues where
  "defaultValues =
     \<lparr> name = [], description = Some [], purchasePrice = None, sellingPrice = 0,
       mrp = None, gst = None, sku = None, barcode = None, weight = None,
       dimensions = Some \<lparr> dim_length = None, dim_width = None, dim_height = None \<rparr>,
       inventoryQuantity = Some 0, status = ''active'', categoryId = None,
       featuredImageUrl = None, images = [], tags = [] \<rparr>"

definition initialState :: productFormState where
  "initialState =
     \<lparr> activeTab = ''basic'', tag = [], isSubmitting = False, activeSection = None,
       selectedColors = [], selectedSizes = [], generatedVariants = [],
       customColor = [], customSize = [], bulkEditMode = False,
       bulkEditData = \<lparr> bulk_sellingPrice = None, bulk_mrp = None,
                        bulk_inventoryQuantity = None \<rparr>,
       selectedVariants = [], productForm = defaultValues \<rparr>"

subsection \<open>Selecting colors and sizes\<close>

text \<open>The \<open>onClick\<close> of a predefined color badge and of a predefined size badge.\<close>

definition colorBadge_onClick :: "string \<Rightarrow> productFormState \<Rightarrow> productFormState" where
  "colorBadge_onClick color s =
     (if color \<in> set (selectedColors s)
      then s\<lparr>selectedColors := filter (\<lambda>c. c \<noteq> color) (selectedColors s)\<rparr>
      else s\<lparr>selectedColors := selectedColors s @ [color]\<rparr>)"

definition sizeBadge_onClick :: "string \<Rightarrow> productFormState \<Rightarrow> productFormState" where
  "sizeBadge_onClick sz s =
     (if sz \<in> set (selectedSizes s)
      then s\<lparr>selectedSizes := filter (\<lambda>z. z \<noteq> sz) (selectedSizes s)\<rparr>
      else s\<lparr>selectedSizes := selectedSizes s @ [sz]\<rparr>)"

text \<open>The badge of a custom color or size only removes it.\<close>

definition customColorBadge_onClick :: "string \<Rightarrow> productFormState \<Rightarrow> productFormState" where
  "customColorBadge_onClick color s =
     s\<lparr>selectedColors := filter (\<lambda>c. c \<noteq> color) (selectedColors s)\<rparr>"

definition customSizeBadge_onClick :: "string \<Rightarrow> productFormState \<Rightarrow> productFormState" where
  "customSizeBadge_onClick sz s =
     s\<lparr>selectedSizes := filter (\<lambda>z. z \<noteq> sz) (selectedSizes s)\<rparr>"

definition colorAlreadyAdded :: toast where
  "colorAlreadyAdded =
     \<lparr> title = ''Color already added'', description = ''This color is already in the list'',
       variant = Destructive \<rparr>"

definition sizeAlreadyAdded :: toast where
  "sizeAlreadyAdded =
     \<lparr> title = ''Size already added'', description = ''This size is already in the list'',
       variant = Destructive \<rparr>"

text \<open>The \<open>onKeyDown\<close> of the custom color input; \<open>key\<close> is \<open>e.key\<close>.\<close>

definition customColor_onKeyDown :: "string \<Rightarrow> productFormState \<Rightarrow> toast list \<times> productFormState" where
  "customColor_onKeyDown key s =
     (if key = ''Enter'' \<and> trim (customColor s) \<noteq> []
      then (if trim (customColor s) \<notin> set (selectedColors s)
            then ([], s\<lparr>selectedColors := selectedColors s @ [trim (customColor s)],
                        customColor := []\<rparr>)
            else ([colorAlreadyAdded], s))
      else ([], s))"

text \<open>The \<open>onClick\<close> of the "Add Color" button.\<close>

definition addColor_onClick :: "productFormState \<Rightarrow> toast list \<times> productFormState" where
  "addColor_onClick s =
     (if trim (customColor s) \<noteq> [] \<and> trim (customColor s) \<notin> set (selectedColors s)
      then ([], s\<lparr>selectedColors := selectedColors s @ [trim (customColor s)],
                  customColor := []\<rparr>)
      else if trim (customColor s) \<in> set (selectedColors s)
      then ([colorAlreadyAdded], s)
      else ([], s))"

definition customSize_onKeyDown :: "string \<Rightarrow> productFormState \<Rightarrow> toast list \<times> productFormState" where
  "customSize_onKeyDown key s =
     (if key = ''Enter'' \<and> trim (customSize s) \<noteq> []
      then (if trim (customSize s) \<notin> set (selectedSizes s)
            then ([], s\<lparr>selectedSizes := selectedSizes s @ [trim (customSize s)],
                        customSize := []\<rparr>)
            else ([sizeAlreadyAdded], s))
      else ([], s))"

definition addSize_onClick :: "productFormState \<Rightarrow> toast list \<times> productFormState" where
  "addSize_onClick s =
     (if trim (customSize s) \<noteq> [] \<and> trim (customSize s) \<notin> set (selectedSizes s)
      then ([], s\<lparr>selectedSizes := selectedSizes s @ [trim (customSize s)],
                  customSize := []\<rparr>)
      else if trim (customSize s) \<in> set (selectedSizes s)
      then ([sizeAlreadyAdded], s)
      else ([], s))"

text \<open>The \<open>onChange\<close> of the two custom inputs.\<close>

definition customColor_onChange :: "string \<Rightarrow> productFormState \<Rightarrow> productFormState" where
  "customColor_onChange v s = s\<lparr>customColor := v\<rparr>"

definition customSize_onChange :: "string \<Rightarrow> productFormState \<Rightarrow> productFormState" where
  "customSize_onChange v s = s\<lparr>customSize := v\<rparr>"

subsection \<open>Generating the variant matrix\<close>

text \<open>\<open>form.getValues("sku") || (form.getValues("name") ? ... : "PRD")\<close>.\<close>

definition baseSku_of :: "productFormValues \<Rightarrow> string" where
  "baseSku_of v =
     (case sku v of
        Some k \<Rightarrow>
          if k \<noteq> [] then k
          else if name v \<noteq> [] then toUpperCase (substring (name v) 0 3) else ''PRD''
      | None \<Rightarrow>
          if name v \<noteq> [] then toUpperCase (substring (name v) 0 3) else ''PRD'')"

text \<open>\<open>form.getValues("sellingPrice") || 0\<close>: a zero is falsy and is replaced by \<open>0\<close>.\<close>

definition basePrice_of :: "productFormValues \<Rightarrow> number" where
  "basePrice_of v = (if sellingPrice v = 0 then 0 else sellingPrice v)"

text \<open>The object literal of the inner loop; \<open>rid\<close> is the value of
  \<open>Math.random().toString(36).substring(2, 9)\<close> at this iteration.\<close>

definition new_variant :: "string \<Rightarrow> string \<Rightarrow> number \<Rightarrow> string \<Rightarrow> string \<Rightarrow> variant_t" where
  "new_variant rid baseSku basePrice color sz =
     \<lparr> v_id = rid, v_color = color, v_size = sz,
       v_sku = baseSku @ ''-'' @ substring color 0 1 @ sz,
       v_sellingPrice = basePrice,
       v_mrp = js_times basePrice lit_1_2,
       v_purchasePrice = js_times basePrice lit_0_7,
       v_gst = 18, v_inventoryQuantity = 10, v_images = [], v_imageUrl = None \<rparr>"

text \<open>
  The two \<open>for\<close> loops, each pushing onto \<open>variants\<close>. The random source is a function
  \<open>rnd\<close>: \<open>rnd k\<close> is the identifier drawn at the \<open>k\<close>-th iteration of the click, and each
  iteration draws once, so the draw made when \<open>variants\<close> has \<open>k\<close> rows is \<open>rnd k\<close>.
\<close>

fun sizes_loop :: "(nat \<Rightarrow> string) \<Rightarrow> string \<Rightarrow> number \<Rightarrow> string \<Rightarrow> string list
    \<Rightarrow> variant_t list \<Rightarrow> variant_t list" where
  "sizes_loop rnd baseSku basePrice color [] variants = variants"
| "sizes_loop rnd baseSku basePrice color (sz # rest) variants =
     sizes_loop rnd baseSku basePrice color rest
       (variants @ [new_variant (rnd (length variants)) baseSku basePrice color sz])"

fun colors_loop :: "(nat \<Rightarrow> string) \<Rightarrow> string \<Rightarrow> number \<Rightarrow> string list \<Rightarrow> string list
    \<Rightarrow> variant_t list \<Rightarrow> variant_t list" where
  "colors_loop rnd baseSku basePrice [] sizes variants = variants"
| "colors_loop rnd baseSku basePrice (color # rest) sizes variants =
     colors_loop rnd baseSku basePrice rest sizes
       (sizes_loop rnd baseSku basePrice color sizes variants)"

definition cannotGenerate :: toast where
  "cannotGenerate =
     \<lparr> title = ''Cannot generate variants'',
       description = ''Please select at least one color and one size'',
       variant = Destructive \<rparr>"

definition variantsGenerated :: "nat \<Rightarrow> toast" where
  "variantsGenerated n =
     \<lparr> title = ''Variants generated'',
       description = ''Created '' @ string_of_nat n @ '' variants from your selection'',
       variant = Default \<rparr>"

text \<open>The \<open>onClick\<close> of "Generate Variant Matrix".\<close>

definition generate_onClick :: "(nat \<Rightarrow> string) \<Rightarrow> productFormState
    \<Rightarrow> toast list \<times> productFormState" where
  "generate_onClick rnd s =
     (if length (selectedColors s) = 0 \<or> length (selectedSizes s) = 0
      then ([cannotGenerate], s)
      else
        let basePrice = basePrice_of (productForm s);
            baseSku = baseSku_of (productForm s);
            variants = colors_loop rnd baseSku basePrice (selectedColors s) (selectedSizes s) []
        in ([variantsGenerated (length variants)], s\<lparr>generatedVariants := variants\<rparr>))"

subsection \<open>Managing the generated variants\<close>

definition variantRemoved :: "variant_t \<Rightarrow> toast" where
  "variantRemoved v =
     \<lparr> title = ''Variant removed'',
       description = v_color v @ '' / '' @ v_size v @ '' has been removed'',
       variant = Default \<rparr>"

text \<open>The \<open>onClick\<close> of the delete button in the row of \<open>v\<close>.\<close>

definition deleteVariant_onClick :: "variant_t \<Rightarrow> productFormState
    \<Rightarrow> toast list \<times> productFormState" where
  "deleteVariant_onClick v s =
     ([variantRemoved v],
      s\<lparr>generatedVariants := filter (\<lambda>w. v_id w \<noteq> v_id v) (generatedVariants s)\<rparr>)"

text \<open>The \<open>onClick\<close> of "Clear All".\<close>

definition clearAll_onClick :: "productFormState \<Rightarrow> productFormState" where
  "clearAll_onClick s = s\<lparr>generatedVariants := []\<rparr>"

subsection \<open>Moving between the tabs\<close>

text \<open>
  Each tab's content holds its own "Next" and "Previous" button, and each button sets
  \<open>activeTab\<close> to a fixed string. The first tab has no "Previous", the last tab no
  "Next"; a value of \<open>activeTab\<close> that names no tab shows no content and no button.
\<close>

definition next_onClick :: "productFormState \<Rightarrow> productFormState" where
  "next_onClick s =
     (if activeTab s = ''basic'' then s\<lparr>activeTab := ''pricing''\<rparr>
      else if activeTab s = ''pricing'' then s\<lparr>activeTab := ''inventory''\<rparr>
      else if activeTab s = ''inventory'' then s\<lparr>activeTab := ''category''\<rparr>
      else if activeTab s = ''category'' then s\<lparr>activeTab := ''media''\<rparr>
      else if activeTab s = ''media'' then s\<lparr>activeTab := ''attributes''\<rparr>
      else s)"

definition previous_onClick :: "productFormState \<Rightarrow> productFormState" where
  "previous_onClick s =
     (if activeTab s = ''pricing'' then s\<lparr>activeTab := ''basic''\<rparr>
      else if activeTab s = ''inventory'' then s\<lparr>activeTab := ''pricing''\<rparr>
      else if activeTab s = ''category'' then s\<lparr>activeTab := ''inventory''\<rparr>
      else if activeTab s = ''media'' then s\<lparr>activeTab := ''category''\<rparr>
      else if activeTab s = ''variants'' then s\<lparr>activeTab := ''media''\<rparr>
      else s)"

text \<open>The rules of \<open>productFormSchema\<close> for the two required fields: \<open>name\<close> has at
  least one character, \<open>sellingPrice\<close> is at least \<open>0\<close>.\<close>

definition name_ok :: "productFormValues \<Rightarrow> bool" where
  "name_ok v = (1 \<le> length (name v))"

definition sellingPrice_ok :: "productFormValues \<Rightarrow> bool" where
  "sellingPrice_ok v = (0 \<le> sellingPrice v)"

subsection \<open>Submitting\<close>

text \<open>\<open>productData\<close>: the values of the form, spread, with the two variant fields;
  \<open>None\<close> is \<open>undefined\<close>.\<close>

record productData_t =
  pd_values :: productFormValues
  hasVariants :: bool
  variants :: "variant_t list option"

definition productData :: "productFormValues \<Rightarrow> productFormState \<Rightarrow> productData_t" where
  "productData values s =
     \<lparr> pd_values = values,
       hasVariants = (length (generatedVariants s) > 0),
       variants = (if length (generatedVariants s) > 0 then Some (generatedVariants s)
                   else None) \<rparr>"

text \<open>The request \<open>onSubmit\<close> issues: \<open>PUT /api/products/<id>\<close> when editing,
  \<open>POST /api/products\<close> otherwise.\<close>

datatype request = PUT string productData_t | POST string productData_t

fun request_body :: "request \<Rightarrow> productData_t" where
  "request_body (PUT url d) = d"
| "request_body (POST url d) = d"

definition onSubmit_request :: "bool \<Rightarrow> string \<Rightarrow> productFormValues \<Rightarrow> productFormState
    \<Rightarrow> request" where
  "onSubmit_request isEditing productId values s =
     (if isEditing then PUT (''/api/products/'' @ productId) (productData values s)
      else POST ''/api/products'' (productData values s))"

section \<open>The checkout form\<close>

subsection \<open>Form values and component state\<close>

datatype checkout_step = Shipping | Payment | Review

datatype address_tab = Saved | New

datatype paymentMethod_t = Cod | Paypal | Stripe

record customerAddress =
  ca_id :: number
  ca_customerId :: number
  ca_addressLine1 :: string
  ca_addressLine2 :: "string option"
  ca_city :: string
  ca_state :: string
  ca_postalCode :: string
  ca_country :: string
  ca_isDefault :: "bool option"
  ca_createdAt :: string

record shippingAddress_t =
  addressLine1 :: string
  addressLine2 :: "string option"
  city :: string
  state :: string
  postalCode :: string
  country :: string

text \<open>\<open>CheckoutFormValues\<close>; \<open>None\<close> stands for \<open>undefined\<close>, and \<open>notes_field\<close> is
  the field \<open>notes\<close>.\<close>

record checkoutFormValues =
  shippingAddressId :: "number option"
  shippingAddress :: shippingAddress_t
  paymentMethod :: "paymentMethod_t option"
  notes_field :: "string option"

text \<open>The \<open>useState\<close> cells of \<open>CheckoutForm\<close>, the values of the form and the errors
  the form holds, each a field path with its message.\<close>

record checkoutState =
  step :: checkout_step
  addressTab :: address_tab
  selectedAddress :: "customerAddress option"
  checkoutForm :: checkoutFormValues
  errors :: "(string \<times> string) list"

definition checkout_defaultValues :: checkoutFormValues where
  "checkout_defaultValues =
     \<lparr> shippingAddressId = None,
       shippingAddress =
         \<lparr> addressLine1 = [], addressLine2 = Some [], city = [], state = [],
           postalCode = [], country = ''India'' \<rparr>,
       paymentMethod = Some Cod, notes_field = Some [] \<rparr>"

definition checkout_initialState :: checkoutState where
  "checkout_initialState =
     \<lparr> step = Shipping, addressTab = Saved, selectedAddress = None,
       checkoutForm = checkout_defaultValues, errors = [] \<rparr>"

subsection \<open>Validation against \<open>checkoutFormSchema\<close>\<close>

text \<open>The rules of the \<open>shippingAddress\<close> object: five strings of at least one
  character, each with its message; \<open>addressLine2\<close> is optional.\<close>

definition shippingAddress_errors :: "shippingAddress_t \<Rightarrow> (string \<times> string) list" where
  "shippingAddress_errors a =
     (if length (addressLine1 a) < 1
      then [(''shippingAddress.addressLine1'', ''Address is required'')] else [])
     @ (if length (city a) < 1
        then [(''shippingAddress.city'', ''City is required'')] else [])
     @ (if length (state a) < 1
        then [(''shippingAddress.state'', ''State is required'')] else [])
     @ (if length (postalCode a) < 1
        then [(''shippingAddress.postalCode'', ''Postal code is required'')] else [])
     @ (if length (country a) < 1
        then [(''shippingAddress.country'', ''Country is required'')] else [])"

text \<open>The rule of \<open>paymentMethod\<close>: one of the three values of the enum.\<close>

definition paymentMethod_errors :: "paymentMethod_t option \<Rightarrow> (string \<times> string) list" where
  "paymentMethod_errors m =
     (case m of
        None \<Rightarrow> [(''paymentMethod'', ''Please select a payment method'')]
      | Some _ \<Rightarrow> [])"

text \<open>A field path lies under a name when it is the name or continues it with a dot.\<close>

definition under :: "string \<Rightarrow> string \<Rightarrow> bool" where
  "under nm path = (path = nm \<or> take (length nm + 1) path = nm @ ''.'')"

text \<open>
  \<open>form.trigger(name)\<close> validates the fields under \<open>name\<close>, replaces the errors the
  form holds for them by the ones found, and answers whether there was none.
\<close>

definition trigger_shippingAddress :: "checkoutState \<Rightarrow> bool \<times> checkoutState" where
  "trigger_shippingAddress s =
     (let found = shippingAddress_errors (shippingAddress (checkoutForm s))
      in (found = [],
          s\<lparr>errors := filter (\<lambda>e. \<not> under ''shippingAddress'' (fst e)) (errors s) @ found\<rparr>))"

definition trigger_paymentMethod :: "checkoutState \<Rightarrow> bool \<times> checkoutState" where
  "trigger_paymentMethod s =
     (let found = paymentMethod_errors (paymentMethod (checkoutForm s))
      in (found = [],
          s\<lparr>errors := filter (\<lambda>e. \<not> under ''paymentMethod'' (fst e)) (errors s) @ found\<rparr>))"

subsection \<open>Moving between the steps\<close>

definition handleNextStep :: "checkoutState \<Rightarrow> checkoutState" where
  "handleNextStep s =
     (if step s = Shipping then
        (let (shippingValid, s1) = trigger_shippingAddress s
         in if shippingValid then s1\<lparr>step := Payment\<rparr> else s1)
      else if step s = Payment then
        (let (paymentValid, s1) = trigger_paymentMethod s
         in if paymentValid then s1\<lparr>step := Review\<rparr> else s1)
      else s)"

definition handlePreviousStep :: "checkoutState \<Rightarrow> checkoutState" where
  "handlePreviousStep s =
     (if step s = Payment then s\<lparr>step := Shipping\<rparr>
      else if step s = Review then s\<lparr>step := Payment\<rparr>
      else s)"

text \<open>
  The clicks whose handlers set the step: "Next" and "Back", and the two "Change"
  buttons, which the review step alone shows.
\<close>

datatype checkout_click = NextClick | BackClick | ChangeShippingClick | ChangePaymentClick

fun checkout_onClick :: "checkout_click \<Rightarrow> checkoutState \<Rightarrow> checkoutState" where
  "checkout_onClick NextClick s = handleNextStep s"
| "checkout_onClick BackClick s = handlePreviousStep s"
| "checkout_onClick ChangeShippingClick s =
     (if step s = Review then s\<lparr>step := Shipping\<rparr> else s)"
| "checkout_onClick ChangePaymentClick s =
     (if step s = Review then s\<lparr>step := Payment\<rparr> else s)"

text \<open>The order of the steps, and the errors of the field group bound to a step.\<close>

fun step_index :: "checkout_step \<Rightarrow> nat" where
  "step_index Shipping = 0"
| "step_index Payment = 1"
| "step_index Review = 2"

definition step_errors :: "checkoutState \<Rightarrow> (string \<times> string) list" where
  "step_errors s =
     (case step s of
        Shipping \<Rightarrow> shippingAddress_errors (shippingAddress (checkoutForm s))
      | Payment \<Rightarrow> paymentMethod_errors (paymentMethod (checkoutForm s))
      | Review \<Rightarrow> [])"

section \<open>Example states\<close>

text \<open>A random source that draws \<open>v0\<close>, \<open>v1\<close>, ...\<close>

definition example_rnd :: "nat \<Rightarrow> string" where
  "example_rnd k = ''v'' @ string_of_nat k"

text \<open>Two colors and two sizes selected, a selling price of 100 and the SKU \<open>SHI\<close>.\<close>

definition example_state :: productFormState where
  "example_state =
     initialState\<lparr> selectedColors := [''Red'', ''Blue''], selectedSizes := [''S'', ''M''],
       productForm := defaultValues\<lparr> sellingPrice := 100, sku := Some ''SHI'' \<rparr> \<rparr>"

text \<open>The same selection with no SKU and the name \<open>shirt\<close>, and with an empty SKU and
  no name.\<close>

definition example_named :: productFormState where
  "example_named =
     example_state\<lparr> productForm := defaultValues\<lparr> sellingPrice := 100, name := ''shirt'' \<rparr> \<rparr>"

definition example_unnamed :: productFormState where
  "example_unnamed =
     example_state\<lparr> productForm := defaultValues\<lparr> sellingPrice := 100, sku := Some [] \<rparr> \<rparr>"

text \<open>The state after the matrix was generated, and that state with the sizes
  deselected.\<close>

definition example_generated :: productFormState where
  "example_generated = snd (generate_onClick example_rnd example_state)"

definition example_no_sizes :: productFormState where
  "example_no_sizes = example_generated\<lparr> selectedSizes := [] \<rparr>"

text \<open>The same selection with a selling price of 3, with the name \<open>U+00E9 clair\<close> and
  with the name \<open>U+00DF ab\<close>, neither with a SKU.\<close>

definition example_three :: productFormState where
  "example_three =
     example_state\<lparr> productForm := defaultValues\<lparr> sellingPrice := 3, sku := Some ''SHI'' \<rparr> \<rparr>"

definition example_latin :: productFormState where
  "example_latin =
     example_state\<lparr> productForm :=
       defaultValues\<lparr> sellingPrice := 100, name := CHR 0xE9 # ''clair'' \<rparr> \<rparr>"

definition example_sharp :: productFormState where
  "example_sharp =
     example_state\<lparr> productForm :=
       defaultValues\<lparr> sellingPrice := 100, name := CHR 0xDF # ''ab'' \<rparr> \<rparr>"

text \<open>A row that the generated collection does not hold.\<close>

definition example_foreign :: variant_t where
  "example_foreign = new_variant ''zz'' ''SHI'' 100 ''Green'' ''XL''"

text \<open>A custom color and a custom size typed with blanks around them, a custom color
  typed after a no-break space, and inputs of blanks only.\<close>

definition example_teal :: productFormState where
  "example_teal = customColor_onChange ''  Teal '' example_state"

definition example_xs :: productFormState where
  "example_xs = customSize_onChange '' XS'' example_state"

definition example_nbsp :: productFormState where
  "example_nbsp = customColor_onChange (CHR 0xA0 # ''Navy'') example_state"

definition example_blank :: productFormState where
  "example_blank =
     customSize_onChange ''  '' (customColor_onChange [CHR 0xA0, CHR '' ''] example_state)"

text \<open>A checkout with a complete address on the first step, the same with the city
  left empty, and the complete one on the review step.\<close>

definition example_checkout :: checkoutState where
  "example_checkout =
     checkout_initialState
       \<lparr> checkoutForm := checkout_defaultValues
           \<lparr> shippingAddress :=
               \<lparr> addressLine1 = ''12 MG Road'', addressLine2 = Some [], city = ''Pune'',
                 state = ''MH'', postalCode = ''411001'', country = ''India'' \<rparr> \<rparr> \<rparr>"

definition example_no_city :: checkoutState where
  "example_no_city =
     checkout_initialState
       \<lparr> checkoutForm := checkout_defaultValues
           \<lparr> shippingAddress :=
               \<lparr> addressLine1 = ''12 MG Road'', addressLine2 = Some [], city = [],
                 state = ''MH'', postalCode = ''411001'', country = ''India'' \<rparr> \<rparr> \<rparr>"

definition example_review :: checkoutState where
  "example_review = example_checkout\<lparr> step := Review \<rparr>"

section \<open>Properties\<close>

subsection \<open>Toggling an attribute\<close>

text \<open>
  Claim C6. Clicking a predefined color badge (or size badge) twice gives a selection
  with the same members as before, and the labels other than the clicked one keep their
  relative order; one click removes the label when it is selected and appends it at the
  end when it is not.
\<close>

theorem toggleAttribute_twice:
  "set (selectedColors (colorBadge_onClick l (colorBadge_onClick l s))) = set (selectedColors s)
   \<and> filter (\<lambda>c. c \<noteq> l) (selectedColors (colorBadge_onClick l (colorBadge_onClick l s)))
       = filter (\<lambda>c. c \<noteq> l) (selectedColors s)
   \<and> (l \<in> set (selectedColors s) \<longrightarrow>
        selectedColors (colorBadge_onClick l s) = filter (\<lambda>c. c \<noteq> l) (selectedColors s)
        \<and> l \<notin> set (selectedColors (colorBadge_onClick l s)))
   \<and> (l \<notin> set (selectedColors s) \<longrightarrow>
        selectedColors (colorBadge_onClick l s) = selectedColors s @ [l])
   \<and> set (selectedSizes (sizeBadge_onClick l (sizeBadge_onClick l s))) = set (selectedSizes s)
   \<and> filter (\<lambda>c. c \<noteq> l) (selectedSizes (sizeBadge_onClick l (sizeBadge_onClick l s)))
       = filter (\<lambda>c. c \<noteq> l) (selectedSizes s)
   \<and> (l \<in> set (selectedSizes s) \<longrightarrow>
        selectedSizes (sizeBadge_onClick l s) = filter (\<lambda>c. c \<noteq> l) (selectedSizes s)
        \<and> l \<notin> set (selectedSizes (sizeBadge_onClick l s)))
   \<and> (l \<notin> set (selectedSizes s) \<longrightarrow>
        selectedSizes (sizeBadge_onClick l s) = selectedSizes s @ [l])"
  by (auto simp: colorBadge_onClick_def sizeBadge_onClick_def filter_id_conv)

theorem toggleAttribute_twice_witness:
  "selectedColors (colorBadge_onClick ''Red'' example_state) = [''Blue'']
   \<and> selectedColors (colorBadge_onClick ''Red'' (colorBadge_onClick ''Red'' example_state))
       = [''Blue'', ''Red'']
   \<and> selectedColors (colorBadge_onClick ''Green'' example_state) = [''Red'', ''Blue'', ''Green'']
   \<and> selectedSizes (sizeBadge_onClick ''M'' example_state) = [''S'']
   \<and> selectedSizes (sizeBadge_onClick ''XL'' example_state) = [''S'', ''M'', ''XL'']"
proof -
  note ex = example_state_def initialState_def
  have red: "''Red'' \<in> set (selectedColors example_state)"
    and green: "''Green'' \<notin> set (selectedColors example_state)"
    and m: "''M'' \<in> set (selectedSizes example_state)"
    and xl: "''XL'' \<notin> set (selectedSizes example_state)"
    by (simp_all add: ex)
  have a: "selectedColors (colorBadge_onClick ''Red'' example_state) = [''Blue'']"
    using toggleAttribute_twice [of "''Red''" example_state] red by (simp add: ex)
  have b: "selectedColors (colorBadge_onClick ''Red'' (colorBadge_onClick ''Red'' example_state))
       = [''Blue'', ''Red'']"
    using toggleAttribute_twice [of "''Red''" "colorBadge_onClick ''Red'' example_state"] a
    by simp
  have c: "selectedColors (colorBadge_onClick ''Green'' example_state)
       = [''Red'', ''Blue'', ''Green'']"
    using toggleAttribute_twice [of "''Green''" example_state] green by (simp add: ex)
  have d: "selectedSizes (sizeBadge_onClick ''M'' example_state) = [''S'']"
    using toggleAttribute_twice [of "''M''" example_state] m by (simp add: ex)
  have e: "selectedSizes (sizeBadge_onClick ''XL'' example_state) = [''S'', ''M'', ''XL'']"
    using toggleAttribute_twice [of "''XL''" example_state] xl by (simp add: ex)
  from a b c d e show ?thesis by blast
qed

subsection \<open>Generating the variant matrix\<close>

lemma times_100_1_2: "js_times 100 lit_1_2 = 120"
  by code_simp

lemma times_100_0_7: "js_times 100 lit_0_7 = 70"
  by code_simp

lemma sizes_loop_pairs:
  "map (\<lambda>v. (v_color v, v_size v)) (sizes_loop rnd b p c szs vs)
     = map (\<lambda>v. (v_color v, v_size v)) vs @ map (\<lambda>z. (c, z)) szs"
  by (induction szs arbitrary: vs) (simp_all add: new_variant_def)

lemma colors_loop_pairs:
  "map (\<lambda>v. (v_color v, v_size v)) (colors_loop rnd b p cs szs vs)
     = map (\<lambda>v. (v_color v, v_size v)) vs @ concat (map (\<lambda>c. map (\<lambda>z. (c, z)) szs) cs)"
  by (induction cs arbitrary: vs) (simp_all add: sizes_loop_pairs)

lemma length_concat_pairs:
  "length (concat (map (\<lambda>c. map (\<lambda>z. (c, z)) szs) cs)) = length cs * length szs"
  by (induction cs) simp_all

lemma length_colors_loop:
  "length (colors_loop rnd b p cs szs []) = length cs * length szs"
proof -
  have "length (colors_loop rnd b p cs szs [])
      = length (map (\<lambda>v. (v_color v, v_size v)) (colors_loop rnd b p cs szs []))"
    by simp
  also have "\<dots> = length cs * length szs"
    by (simp only: colors_loop_pairs) (simp add: length_concat_pairs)
  finally show ?thesis .
qed

text \<open>
  Claim C1. When at least one color and at least one size are selected, generating
  produces one row per pair, \<open>|colors| * |sizes|\<close> rows in all, with the colors in the
  outer loop and the sizes in the inner one, and the rows replace the collection held
  before: the result does not depend on it.
\<close>

theorem generate_matrix:
  assumes "selectedColors s \<noteq> []" and "selectedSizes s \<noteq> []"
  shows "length (generatedVariants (snd (generate_onClick rnd s)))
           = length (selectedColors s) * length (selectedSizes s)
       \<and> map (\<lambda>v. (v_color v, v_size v)) (generatedVariants (snd (generate_onClick rnd s)))
           = concat (map (\<lambda>c. map (\<lambda>z. (c, z)) (selectedSizes s)) (selectedColors s))
       \<and> generatedVariants (snd (generate_onClick rnd (s\<lparr>generatedVariants := old\<rparr>)))
           = generatedVariants (snd (generate_onClick rnd s))
       \<and> fst (generate_onClick rnd s)
           = [variantsGenerated (length (selectedColors s) * length (selectedSizes s))]"
  using assms
  by (simp add: generate_onClick_def Let_def length_colors_loop colors_loop_pairs)

lemma example_rnd_values:
  "example_rnd 0 = ''v0''" "example_rnd (Suc 0) = ''v1''" "example_rnd 2 = ''v2''" "example_rnd 3 = ''v3''"
  "example_rnd (Suc (Suc 0)) = ''v2''" "example_rnd (Suc (Suc (Suc 0))) = ''v3''"
  by code_simp+

theorem generate_matrix_witness:
  "selectedColors example_state \<noteq> [] \<and> selectedSizes example_state \<noteq> []
   \<and> length (generatedVariants (snd (generate_onClick example_rnd example_state))) = 4
   \<and> map (\<lambda>v. (v_color v, v_size v))
         (generatedVariants (snd (generate_onClick example_rnd example_state)))
       = [(''Red'', ''S''), (''Red'', ''M''), (''Blue'', ''S''), (''Blue'', ''M'')]"
proof -
  have c: "selectedColors example_state \<noteq> []"
    by (simp add: example_state_def initialState_def)
  have z: "selectedSizes example_state \<noteq> []"
    by (simp add: example_state_def initialState_def)
  show ?thesis
    using c z generate_matrix [OF c z, of example_rnd]
    by (simp add: example_state_def initialState_def)
qed


text \<open>
  Claim C2. When no color or no size is selected, generating raises the notice
  "Cannot generate variants" and leaves the whole state, the collection of generated
  variants included, as it was.
\<close>

theorem generate_insufficient:
  assumes "selectedColors s = [] \<or> selectedSizes s = []"
  shows "generate_onClick rnd s = ([cannotGenerate], s)"
  using assms by (auto simp: generate_onClick_def)


theorem generate_insufficient_witness:
  "selectedSizes example_no_sizes = []
   \<and> generate_onClick example_rnd example_no_sizes = ([cannotGenerate], example_no_sizes)
   \<and> length (generatedVariants (snd (generate_onClick example_rnd example_no_sizes))) = 4"
proof -
  have z: "selectedSizes example_no_sizes = []"
    by (simp add: example_no_sizes_def)
  then have h: "selectedColors example_no_sizes = [] \<or> selectedSizes example_no_sizes = []"
    by simp
  have n: "length (generatedVariants example_no_sizes) = 4"
    by (simp add: example_no_sizes_def example_generated_def example_state_def
        initialState_def generate_onClick_def Let_def)
  from z n generate_insufficient [OF h, of example_rnd] show ?thesis
    by simp
qed

text \<open>What every row pushed by the loops satisfies.\<close>

lemma sizes_loop_rows:
  assumes "\<forall>v\<in>set vs. v_sku v = b @ ''-'' @ take 1 (v_color v) @ v_size v
      \<and> v_sellingPrice v = p \<and> v_mrp v = js_times p lit_1_2
      \<and> v_purchasePrice v = js_times p lit_0_7 \<and> v_gst v = 18 \<and> v_inventoryQuantity v = 10"
  shows "\<forall>v\<in>set (sizes_loop rnd b p c szs vs).
      v_sku v = b @ ''-'' @ take 1 (v_color v) @ v_size v
      \<and> v_sellingPrice v = p \<and> v_mrp v = js_times p lit_1_2
      \<and> v_purchasePrice v = js_times p lit_0_7 \<and> v_gst v = 18 \<and> v_inventoryQuantity v = 10"
  using assms
proof (induction szs arbitrary: vs)
  case Nil
  then show ?case by simp
next
  case (Cons z szs)
  have "\<forall>v\<in>set (vs @ [new_variant (rnd (length vs)) b p c z]).
      v_sku v = b @ ''-'' @ take 1 (v_color v) @ v_size v
      \<and> v_sellingPrice v = p \<and> v_mrp v = js_times p lit_1_2
      \<and> v_purchasePrice v = js_times p lit_0_7 \<and> v_gst v = 18 \<and> v_inventoryQuantity v = 10"
    using Cons.prems by (simp add: new_variant_def substring_def)
  from Cons.IH [OF this] show ?case by simp
qed

lemma colors_loop_rows:
  assumes "\<forall>v\<in>set vs. v_sku v = b @ ''-'' @ take 1 (v_color v) @ v_size v
      \<and> v_sellingPrice v = p \<and> v_mrp v = js_times p lit_1_2
      \<and> v_purchasePrice v = js_times p lit_0_7 \<and> v_gst v = 18 \<and> v_inventoryQuantity v = 10"
  shows "\<forall>v\<in>set (colors_loop rnd b p cs szs vs).
      v_sku v = b @ ''-'' @ take 1 (v_color v) @ v_size v
      \<and> v_sellingPrice v = p \<and> v_mrp v = js_times p lit_1_2
      \<and> v_purchasePrice v = js_times p lit_0_7 \<and> v_gst v = 18 \<and> v_inventoryQuantity v = 10"
  using assms
proof (induction cs arbitrary: vs)
  case Nil
  then show ?case by simp
next
  case (Cons c cs)
  from Cons.IH [OF sizes_loop_rows [OF Cons.prems]] show ?case by simp
qed

lemma generated_rows:
  assumes "selectedColors t \<noteq> []" and "selectedSizes t \<noteq> []"
  shows "\<forall>v\<in>set (generatedVariants (snd (generate_onClick rnd t))).
      v_sku v = baseSku_of (productForm t) @ ''-'' @ take 1 (v_color v) @ v_size v
      \<and> v_sellingPrice v = sellingPrice (productForm t)
      \<and> v_mrp v = js_times (sellingPrice (productForm t)) lit_1_2
      \<and> v_purchasePrice v = js_times (sellingPrice (productForm t)) lit_0_7
      \<and> v_gst v = 18 \<and> v_inventoryQuantity v = 10"
proof -
  have p: "basePrice_of (productForm t) = sellingPrice (productForm t)"
    by (simp add: basePrice_of_def)
  have "\<forall>v\<in>set ([] :: variant_t list).
      v_sku v = baseSku_of (productForm t) @ ''-'' @ take 1 (v_color v) @ v_size v
      \<and> v_sellingPrice v = basePrice_of (productForm t)
      \<and> v_mrp v = js_times (basePrice_of (productForm t)) lit_1_2
      \<and> v_purchasePrice v = js_times (basePrice_of (productForm t)) lit_0_7
      \<and> v_gst v = 18 \<and> v_inventoryQuantity v = 10"
    by simp
  from colors_loop_rows [OF this] show ?thesis
    using assms by (simp add: generate_onClick_def Let_def p)
qed

lemma scenario_variants:
  assumes "selectedColors s = [''Red'', ''Blue'']" and "selectedSizes s = [''S'', ''M'']"
    and "sellingPrice (productForm s) = 100" and "sku (productForm s) = Some ''SHI''"
  shows "generatedVariants (snd (generate_onClick rnd s)) =
        [ \<lparr> v_id = rnd 0, v_color = ''Red'', v_size = ''S'', v_sku = ''SHI-RS'',
            v_sellingPrice = 100, v_mrp = 120, v_purchasePrice = 70, v_gst = 18,
            v_inventoryQuantity = 10, v_images = [], v_imageUrl = None \<rparr>,
          \<lparr> v_id = rnd 1, v_color = ''Red'', v_size = ''M'', v_sku = ''SHI-RM'',
            v_sellingPrice = 100, v_mrp = 120, v_purchasePrice = 70, v_gst = 18,
            v_inventoryQuantity = 10, v_images = [], v_imageUrl = None \<rparr>,
          \<lparr> v_id = rnd 2, v_color = ''Blue'', v_size = ''S'', v_sku = ''SHI-BS'',
            v_sellingPrice = 100, v_mrp = 120, v_purchasePrice = 70, v_gst = 18,
            v_inventoryQuantity = 10, v_images = [], v_imageUrl = None \<rparr>,
          \<lparr> v_id = rnd 3, v_color = ''Blue'', v_size = ''M'', v_sku = ''SHI-BM'',
            v_sellingPrice = 100, v_mrp = 120, v_purchasePrice = 70, v_gst = 18,
            v_inventoryQuantity = 10, v_images = [], v_imageUrl = None \<rparr> ]"
  using assms
  by (simp add: generate_onClick_def basePrice_of_def baseSku_of_def new_variant_def
      substring_def times_100_1_2 times_100_0_7 numeral_2_eq_2 numeral_3_eq_3)


lemma toUpperCase_examples:
  "toUpperCase ''shi'' = ''SHI''"
  "toUpperCase (CHR 0xE9 # ''cl'') = CHR 0xC9 # ''CL''"
  "toUpperCase (CHR 0xDF # ''ab'') = ''SSAB''"
  by code_simp+

lemma times_3:
  "js_times 3 lit_1_2 = 2026619832316723 / 562949953421312"
  "js_times 3 lit_0_7 = 1182194902184755 / 562949953421312"
  by code_simp+

lemma in_model_range_3: "in_model_range 3"
  by code_simp

lemma substring_0_3: "substring s 0 3 = take 3 s"
  by (simp add: substring_def)

text \<open>
  Claim C3. With the colors Red and Blue, the sizes S and M, a selling price of 100 and
  the SKU \<open>SHI\<close>, generating gives the four rows \<open>SHI-RS\<close>, \<open>SHI-RM\<close>, \<open>SHI-BS\<close>,
  \<open>SHI-BM\<close> in this order, each with selling price 100, MRP 120, purchase price 70,
  GST 18 and inventory 10. In general, for a selling price in the range of the model,
  every row has the selling price of the form, the MRP that is the double product of
  that price and 1.2, the purchase price that is its double product with 0.7, GST 18
  and inventory 10; and the SKU of every row is the prefix, a dash,
  the first letter of the color and the size, where the prefix is the SKU of the form
  when it has one, else the first three characters of the product name in upper case
  (stated for the names whose first three code units have their upper case among the
  code units below 256), else \<open>PRD\<close>.
\<close>

theorem generate_scenario_and_sku:
  "(selectedColors s = [''Red'', ''Blue''] \<and> selectedSizes s = [''S'', ''M'']
      \<and> sellingPrice (productForm s) = 100 \<and> sku (productForm s) = Some ''SHI'' \<longrightarrow>
      generatedVariants (snd (generate_onClick rnd s)) =
        [ \<lparr> v_id = rnd 0, v_color = ''Red'', v_size = ''S'', v_sku = ''SHI-RS'',
            v_sellingPrice = 100, v_mrp = 120, v_purchasePrice = 70, v_gst = 18,
            v_inventoryQuantity = 10, v_images = [], v_imageUrl = None \<rparr>,
          \<lparr> v_id = rnd 1, v_color = ''Red'', v_size = ''M'', v_sku = ''SHI-RM'',
            v_sellingPrice = 100, v_mrp = 120, v_purchasePrice = 70, v_gst = 18,
            v_inventoryQuantity = 10, v_images = [], v_imageUrl = None \<rparr>,
          \<lparr> v_id = rnd 2, v_color = ''Blue'', v_size = ''S'', v_sku = ''SHI-BS'',
            v_sellingPrice = 100, v_mrp = 120, v_purchasePrice = 70, v_gst = 18,
            v_inventoryQuantity = 10, v_images = [], v_imageUrl = None \<rparr>,
          \<lparr> v_id = rnd 3, v_color = ''Blue'', v_size = ''M'', v_sku = ''SHI-BM'',
            v_sellingPrice = 100, v_mrp = 120, v_purchasePrice = 70, v_gst = 18,
            v_inventoryQuantity = 10, v_images = [], v_imageUrl = None \<rparr> ])
   \<and> (selectedColors t \<noteq> [] \<and> selectedSizes t \<noteq> [] \<longrightarrow>
        (in_model_range (sellingPrice (productForm t)) \<longrightarrow>
           (\<forall>v\<in>set (generatedVariants (snd (generate_onClick rnd t))).
              v_sellingPrice v = sellingPrice (productForm t)
              \<and> v_mrp v = js_times (sellingPrice (productForm t)) lit_1_2
              \<and> v_purchasePrice v = js_times (sellingPrice (productForm t)) lit_0_7
              \<and> v_gst v = 18 \<and> v_inventoryQuantity v = 10))
        \<and> (\<forall>k. sku (productForm t) = Some k \<and> k \<noteq> [] \<longrightarrow>
           (\<forall>v\<in>set (generatedVariants (snd (generate_onClick rnd t))).
              v_sku v = k @ ''-'' @ take 1 (v_color v) @ v_size v))
        \<and> ((sku (productForm t) = None \<or> sku (productForm t) = Some [])
             \<and> name (productForm t) \<noteq> []
             \<and> upperCase_in_model (take 3 (name (productForm t))) \<longrightarrow>
           (\<forall>v\<in>set (generatedVariants (snd (generate_onClick rnd t))).
              v_sku v = toUpperCase (take 3 (name (productForm t))) @ ''-''
                        @ take 1 (v_color v) @ v_size v))
        \<and> ((sku (productForm t) = None \<or> sku (productForm t) = Some [])
             \<and> name (productForm t) = [] \<longrightarrow>
           (\<forall>v\<in>set (generatedVariants (snd (generate_onClick rnd t))).
              v_sku v = ''PRD'' @ ''-'' @ take 1 (v_color v) @ v_size v)))"
proof (intro conjI impI allI)
  assume "selectedColors s = [''Red'', ''Blue''] \<and> selectedSizes s = [''S'', ''M'']
      \<and> sellingPrice (productForm s) = 100 \<and> sku (productForm s) = Some ''SHI''"
  then show "generatedVariants (snd (generate_onClick rnd s)) =
        [ \<lparr> v_id = rnd 0, v_color = ''Red'', v_size = ''S'', v_sku = ''SHI-RS'',
            v_sellingPrice = 100, v_mrp = 120, v_purchasePrice = 70, v_gst = 18,
            v_inventoryQuantity = 10, v_images = [], v_imageUrl = None \<rparr>,
          \<lparr> v_id = rnd 1, v_color = ''Red'', v_size = ''M'', v_sku = ''SHI-RM'',
            v_sellingPrice = 100, v_mrp = 120, v_purchasePrice = 70, v_gst = 18,
            v_inventoryQuantity = 10, v_images = [], v_imageUrl = None \<rparr>,
          \<lparr> v_id = rnd 2, v_color = ''Blue'', v_size = ''S'', v_sku = ''SHI-BS'',
            v_sellingPrice = 100, v_mrp = 120, v_purchasePrice = 70, v_gst = 18,
            v_inventoryQuantity = 10, v_images = [], v_imageUrl = None \<rparr>,
          \<lparr> v_id = rnd 3, v_color = ''Blue'', v_size = ''M'', v_sku = ''SHI-BM'',
            v_sellingPrice = 100, v_mrp = 120, v_purchasePrice = 70, v_gst = 18,
            v_inventoryQuantity = 10, v_images = [], v_imageUrl = None \<rparr> ]"
    by (simp add: scenario_variants)
next
  assume sel: "selectedColors t \<noteq> [] \<and> selectedSizes t \<noteq> []"
    and "in_model_range (sellingPrice (productForm t))"
  with generated_rows [of t rnd]
  show "\<forall>v\<in>set (generatedVariants (snd (generate_onClick rnd t))).
           v_sellingPrice v = sellingPrice (productForm t)
           \<and> v_mrp v = js_times (sellingPrice (productForm t)) lit_1_2
           \<and> v_purchasePrice v = js_times (sellingPrice (productForm t)) lit_0_7
           \<and> v_gst v = 18 \<and> v_inventoryQuantity v = 10"
    by simp
next
  fix k
  assume sel: "selectedColors t \<noteq> [] \<and> selectedSizes t \<noteq> []"
    and k: "sku (productForm t) = Some k \<and> k \<noteq> []"
  from k have "baseSku_of (productForm t) = k"
    by (simp add: baseSku_of_def)
  with generated_rows [of t rnd] sel
  show "\<forall>v\<in>set (generatedVariants (snd (generate_onClick rnd t))).
              v_sku v = k @ ''-'' @ take 1 (v_color v) @ v_size v"
    by simp
next
  assume sel: "selectedColors t \<noteq> [] \<and> selectedSizes t \<noteq> []"
    and n: "(sku (productForm t) = None \<or> sku (productForm t) = Some [])
             \<and> name (productForm t) \<noteq> []
             \<and> upperCase_in_model (take 3 (name (productForm t)))"
  from n have "baseSku_of (productForm t) = toUpperCase (take 3 (name (productForm t)))"
    by (auto simp: baseSku_of_def substring_0_3)
  with generated_rows [of t rnd] sel
  show "\<forall>v\<in>set (generatedVariants (snd (generate_onClick rnd t))).
              v_sku v = toUpperCase (take 3 (name (productForm t))) @ ''-''
                        @ take 1 (v_color v) @ v_size v"
    by simp
next
  assume sel: "selectedColors t \<noteq> [] \<and> selectedSizes t \<noteq> []"
    and n: "(sku (productForm t) = None \<or> sku (productForm t) = Some [])
             \<and> name (productForm t) = []"
  from n have "baseSku_of (productForm t) = ''PRD''"
    by (auto simp: baseSku_of_def)
  with generated_rows [of t rnd] sel
  show "\<forall>v\<in>set (generatedVariants (snd (generate_onClick rnd t))).
              v_sku v = ''PRD'' @ ''-'' @ take 1 (v_color v) @ v_size v"
    by simp
qed

theorem generate_scenario_and_sku_witness:
  "generatedVariants (snd (generate_onClick example_rnd example_state)) =
        [ \<lparr> v_id = ''v0'', v_color = ''Red'', v_size = ''S'', v_sku = ''SHI-RS'',
            v_sellingPrice = 100, v_mrp = 120, v_purchasePrice = 70, v_gst = 18,
            v_inventoryQuantity = 10, v_images = [], v_imageUrl = None \<rparr>,
          \<lparr> v_id = ''v1'', v_color = ''Red'', v_size = ''M'', v_sku = ''SHI-RM'',
            v_sellingPrice = 100, v_mrp = 120, v_purchasePrice = 70, v_gst = 18,
            v_inventoryQuantity = 10, v_images = [], v_imageUrl = None \<rparr>,
          \<lparr> v_id = ''v2'', v_color = ''Blue'', v_size = ''S'', v_sku = ''SHI-BS'',
            v_sellingPrice = 100, v_mrp = 120, v_purchasePrice = 70, v_gst = 18,
            v_inventoryQuantity = 10, v_images = [], v_imageUrl = None \<rparr>,
          \<lparr> v_id = ''v3'', v_color = ''Blue'', v_size = ''M'', v_sku = ''SHI-BM'',
            v_sellingPrice = 100, v_mrp = 120, v_purchasePrice = 70, v_gst = 18,
            v_inventoryQuantity = 10, v_images = [], v_imageUrl = None \<rparr> ]
   \<and> list_all (\<lambda>v. v_sku v = ''SHI'' @ ''-'' @ take 1 (v_color v) @ v_size v)
        (generatedVariants (snd (generate_onClick example_rnd example_state)))
   \<and> list_all (\<lambda>v. v_sku v = ''SHI'' @ ''-'' @ take 1 (v_color v) @ v_size v)
        (generatedVariants (snd (generate_onClick example_rnd example_named)))
   \<and> map v_sku (generatedVariants (snd (generate_onClick example_rnd example_named)))
       = [''SHI-RS'', ''SHI-RM'', ''SHI-BS'', ''SHI-BM'']
   \<and> list_all (\<lambda>v. v_sku v = ''PRD'' @ ''-'' @ take 1 (v_color v) @ v_size v)
        (generatedVariants (snd (generate_onClick example_rnd example_unnamed)))
   \<and> map v_sku (generatedVariants (snd (generate_onClick example_rnd example_unnamed)))
       = [''PRD-RS'', ''PRD-RM'', ''PRD-BS'', ''PRD-BM'']
   \<and> in_model_range (sellingPrice (productForm example_three))
   \<and> list_all (\<lambda>v. v_sellingPrice v = 3
                    \<and> v_mrp v = 2026619832316723 / 562949953421312
                    \<and> v_purchasePrice v = 1182194902184755 / 562949953421312
                    \<and> v_gst v = 18 \<and> v_inventoryQuantity v = 10)
        (generatedVariants (snd (generate_onClick example_rnd example_three)))
   \<and> length (generatedVariants (snd (generate_onClick example_rnd example_three))) = 4
   \<and> upperCase_in_model (take 3 (name (productForm example_latin)))
   \<and> list_all (\<lambda>v. v_sku v = (CHR 0xC9 # ''CL'') @ ''-'' @ take 1 (v_color v) @ v_size v)
        (generatedVariants (snd (generate_onClick example_rnd example_latin)))
   \<and> map v_sku (generatedVariants (snd (generate_onClick example_rnd example_sharp)))
       = [''SSAB-RS'', ''SSAB-RM'', ''SSAB-BS'', ''SSAB-BM'']"
proof -
  note ex = example_state_def example_named_def example_unnamed_def example_three_def
    example_latin_def example_sharp_def initialState_def defaultValues_def
  have scenario: "selectedColors example_state = [''Red'', ''Blue'']
      \<and> selectedSizes example_state = [''S'', ''M'']
      \<and> sellingPrice (productForm example_state) = 100
      \<and> sku (productForm example_state) = Some ''SHI''"
    by (simp add: ex)
  have a: "generatedVariants (snd (generate_onClick example_rnd example_state)) =
        [ \<lparr> v_id = ''v0'', v_color = ''Red'', v_size = ''S'', v_sku = ''SHI-RS'',
            v_sellingPrice = 100, v_mrp = 120, v_purchasePrice = 70, v_gst = 18,
            v_inventoryQuantity = 10, v_images = [], v_imageUrl = None \<rparr>,
          \<lparr> v_id = ''v1'', v_color = ''Red'', v_size = ''M'', v_sku = ''SHI-RM'',
            v_sellingPrice = 100, v_mrp = 120, v_purchasePrice = 70, v_gst = 18,
            v_inventoryQuantity = 10, v_images = [], v_imageUrl = None \<rparr>,
          \<lparr> v_id = ''v2'', v_color = ''Blue'', v_size = ''S'', v_sku = ''SHI-BS'',
            v_sellingPrice = 100, v_mrp = 120, v_purchasePrice = 70, v_gst = 18,
            v_inventoryQuantity = 10, v_images = [], v_imageUrl = None \<rparr>,
          \<lparr> v_id = ''v3'', v_color = ''Blue'', v_size = ''M'', v_sku = ''SHI-BM'',
            v_sellingPrice = 100, v_mrp = 120, v_purchasePrice = 70, v_gst = 18,
            v_inventoryQuantity = 10, v_images = [], v_imageUrl = None \<rparr> ]"
    using generate_scenario_and_sku [of example_state example_rnd example_state] scenario
    by (simp add: example_rnd_values)
  have b: "list_all (\<lambda>v. v_sku v = ''SHI'' @ ''-'' @ take 1 (v_color v) @ v_size v)
        (generatedVariants (snd (generate_onClick example_rnd example_state)))"
    using generate_scenario_and_sku [of example_state example_rnd example_state] scenario
    by (simp add: list_all_iff)
  have named: "selectedColors example_named \<noteq> [] \<and> selectedSizes example_named \<noteq> []"
    "(sku (productForm example_named) = None \<or> sku (productForm example_named) = Some [])
       \<and> name (productForm example_named) \<noteq> []"
    "upperCase_in_model (take 3 (name (productForm example_named)))"
    "toUpperCase (take 3 (name (productForm example_named))) = ''SHI''"
    by (simp_all add: ex toUpperCase_examples upperCase_in_model_def)
  have c: "list_all (\<lambda>v. v_sku v = ''SHI'' @ ''-'' @ take 1 (v_color v) @ v_size v)
        (generatedVariants (snd (generate_onClick example_rnd example_named)))"
    using generate_scenario_and_sku [of example_state example_rnd example_named] named
    by (simp add: list_all_iff)
  have unnamed: "selectedColors example_unnamed \<noteq> [] \<and> selectedSizes example_unnamed \<noteq> []"
    "(sku (productForm example_unnamed) = None \<or> sku (productForm example_unnamed) = Some [])
       \<and> name (productForm example_unnamed) = []"
    by (simp_all add: ex)
  have d: "list_all (\<lambda>v. v_sku v = ''PRD'' @ ''-'' @ take 1 (v_color v) @ v_size v)
        (generatedVariants (snd (generate_onClick example_rnd example_unnamed)))"
    using generate_scenario_and_sku [of example_state example_rnd example_unnamed] unnamed
    by (simp add: list_all_iff)
  have e: "map v_sku (generatedVariants (snd (generate_onClick example_rnd example_named)))
       = [''SHI-RS'', ''SHI-RM'', ''SHI-BS'', ''SHI-BM'']"
    "map v_sku (generatedVariants (snd (generate_onClick example_rnd example_unnamed)))
       = [''PRD-RS'', ''PRD-RM'', ''PRD-BS'', ''PRD-BM'']"
    "map v_sku (generatedVariants (snd (generate_onClick example_rnd example_sharp)))
       = [''SSAB-RS'', ''SSAB-RM'', ''SSAB-BS'', ''SSAB-BM'']"
    "length (generatedVariants (snd (generate_onClick example_rnd example_three))) = 4"
    by (simp_all add: ex generate_onClick_def Let_def baseSku_of_def new_variant_def
        substring_def toUpperCase_examples)
  have three: "selectedColors example_three \<noteq> [] \<and> selectedSizes example_three \<noteq> []"
    "sellingPrice (productForm example_three) = 3"
    by (simp_all add: ex)
  have range3: "in_model_range (sellingPrice (productForm example_three))"
    by (simp only: three(2) in_model_range_3)
  from generate_scenario_and_sku [of example_state example_rnd example_three, THEN conjunct2]
    three(1)
  have "(in_model_range (sellingPrice (productForm example_three)) \<longrightarrow>
           (\<forall>v\<in>set (generatedVariants (snd (generate_onClick example_rnd example_three))).
              v_sellingPrice v = sellingPrice (productForm example_three)
              \<and> v_mrp v = js_times (sellingPrice (productForm example_three)) lit_1_2
              \<and> v_purchasePrice v = js_times (sellingPrice (productForm example_three)) lit_0_7
              \<and> v_gst v = 18 \<and> v_inventoryQuantity v = 10))
        \<and> (\<forall>k. sku (productForm example_three) = Some k \<and> k \<noteq> [] \<longrightarrow>
           (\<forall>v\<in>set (generatedVariants (snd (generate_onClick example_rnd example_three))).
              v_sku v = k @ ''-'' @ take 1 (v_color v) @ v_size v))
        \<and> ((sku (productForm example_three) = None \<or> sku (productForm example_three) = Some [])
             \<and> name (productForm example_three) \<noteq> []
             \<and> upperCase_in_model (take 3 (name (productForm example_three))) \<longrightarrow>
           (\<forall>v\<in>set (generatedVariants (snd (generate_onClick example_rnd example_three))).
              v_sku v = toUpperCase (take 3 (name (productForm example_three))) @ ''-''
                        @ take 1 (v_color v) @ v_size v))
        \<and> ((sku (productForm example_three) = None \<or> sku (productForm example_three) = Some [])
             \<and> name (productForm example_three) = [] \<longrightarrow>
           (\<forall>v\<in>set (generatedVariants (snd (generate_onClick example_rnd example_three))).
              v_sku v = ''PRD'' @ ''-'' @ take 1 (v_color v) @ v_size v))"
    by (rule mp)
  then have "in_model_range (sellingPrice (productForm example_three)) \<longrightarrow>
           (\<forall>v\<in>set (generatedVariants (snd (generate_onClick example_rnd example_three))).
              v_sellingPrice v = sellingPrice (productForm example_three)
              \<and> v_mrp v = js_times (sellingPrice (productForm example_three)) lit_1_2
              \<and> v_purchasePrice v = js_times (sellingPrice (productForm example_three)) lit_0_7
              \<and> v_gst v = 18 \<and> v_inventoryQuantity v = 10)"
    by (rule conjunct1)
  from this range3
  have "\<forall>v\<in>set (generatedVariants (snd (generate_onClick example_rnd example_three))).
           v_sellingPrice v = sellingPrice (productForm example_three)
           \<and> v_mrp v = js_times (sellingPrice (productForm example_three)) lit_1_2
           \<and> v_purchasePrice v = js_times (sellingPrice (productForm example_three)) lit_0_7
           \<and> v_gst v = 18 \<and> v_inventoryQuantity v = 10"
    by (rule mp)
  then have f: "list_all (\<lambda>v. v_sellingPrice v = 3
                    \<and> v_mrp v = 2026619832316723 / 562949953421312
                    \<and> v_purchasePrice v = 1182194902184755 / 562949953421312
                    \<and> v_gst v = 18 \<and> v_inventoryQuantity v = 10)
        (generatedVariants (snd (generate_onClick example_rnd example_three)))"
    by (simp only: three(2) times_3 list_all_iff)
  have latin: "selectedColors example_latin \<noteq> [] \<and> selectedSizes example_latin \<noteq> []"
    "(sku (productForm example_latin) = None \<or> sku (productForm example_latin) = Some [])
       \<and> name (productForm example_latin) \<noteq> []
       \<and> upperCase_in_model (take 3 (name (productForm example_latin)))"
    "toUpperCase (take 3 (name (productForm example_latin))) = CHR 0xC9 # ''CL''"
    by (simp_all add: ex toUpperCase_examples upperCase_in_model_def)
  have g: "list_all (\<lambda>v. v_sku v = (CHR 0xC9 # ''CL'') @ ''-'' @ take 1 (v_color v) @ v_size v)
        (generatedVariants (snd (generate_onClick example_rnd example_latin)))"
    using generate_scenario_and_sku [of example_state example_rnd example_latin] latin
    by (simp add: list_all_iff)
  from latin(2) have h: "upperCase_in_model (take 3 (name (productForm example_latin)))"
    by (elim conjE)
  show ?thesis
    using a b c d e range3 f g h by - (intro conjI, assumption+)
qed

subsection \<open>Removing a generated variant\<close>

text \<open>The identifiers of the rows the loops push are the draws, in order.\<close>

lemma length_sizes_loop:
  "length (sizes_loop rnd b p c szs vs) = length vs + length szs"
  by (induction szs arbitrary: vs) simp_all

lemma sizes_loop_ids:
  "map v_id (sizes_loop rnd b p c szs vs)
     = map v_id vs @ map rnd [length vs ..< length vs + length szs]"
proof (induction szs arbitrary: vs)
  case Nil
  then show ?case by simp
next
  case (Cons z szs)
  have "[length vs ..< length vs + Suc (length szs)]
      = length vs # [Suc (length vs) ..< length vs + Suc (length szs)]"
    by (rule upt_conv_Cons) simp
  then have u: "map rnd [length vs ..< length vs + Suc (length szs)]
      = rnd (length vs) # map rnd [Suc (length vs) ..< Suc (length vs) + length szs]"
    by simp
  have "map v_id (sizes_loop rnd b p c (z # szs) vs)
      = map v_id (vs @ [new_variant (rnd (length vs)) b p c z])
        @ map rnd [Suc (length vs) ..< Suc (length vs) + length szs]"
    using Cons.IH [of "vs @ [new_variant (rnd (length vs)) b p c z]"] by simp
  also have "\<dots> = map v_id vs
      @ rnd (length vs) # map rnd [Suc (length vs) ..< Suc (length vs) + length szs]"
    by (simp add: new_variant_def)
  also have "\<dots> = map v_id vs @ map rnd [length vs ..< length vs + length (z # szs)]"
    using u by simp
  finally show ?case .
qed

lemma colors_loop_ids:
  "map v_id (colors_loop rnd b p cs szs vs)
     = map v_id vs @ map rnd [length vs ..< length vs + length cs * length szs]"
proof (induction cs arbitrary: vs)
  case Nil
  then show ?case by simp
next
  case (Cons c cs)
  let ?n = "length vs" and ?m = "length szs" and ?k = "length cs * length szs"
  have "[?n ..< ?n + ?m + ?k] = [?n ..< ?n + ?m] @ [?n + ?m ..< ?n + ?m + ?k]"
    by (rule upt_add_eq_append) simp
  then have u: "map rnd [?n ..< ?n + ?m + ?k]
      = map rnd [?n ..< ?n + ?m] @ map rnd [?n + ?m ..< ?n + ?m + ?k]"
    by simp
  have "map v_id (colors_loop rnd b p (c # cs) szs vs)
      = map v_id (sizes_loop rnd b p c szs vs)
        @ map rnd [length (sizes_loop rnd b p c szs vs)
                   ..< length (sizes_loop rnd b p c szs vs) + ?k]"
    using Cons.IH [of "sizes_loop rnd b p c szs vs"] by simp
  also have "\<dots> = (map v_id vs @ map rnd [?n ..< ?n + ?m]) @ map rnd [?n + ?m ..< ?n + ?m + ?k]"
    by (simp only: sizes_loop_ids length_sizes_loop)
  also have "\<dots> = map v_id vs @ map rnd [?n ..< ?n + ?m + ?k]"
    using u by simp
  also have "?n + ?m + ?k = ?n + length (c # cs) * length szs"
    by simp
  finally show ?case .
qed

lemma generated_ids_distinct:
  assumes "selectedColors t \<noteq> []" and "selectedSizes t \<noteq> []"
    and "inj_on rnd {..<length (selectedColors t) * length (selectedSizes t)}"
  shows "distinct (map v_id (generatedVariants (snd (generate_onClick rnd t))))"
proof -
  have "map v_id (generatedVariants (snd (generate_onClick rnd t)))
      = map rnd [0 ..< length (selectedColors t) * length (selectedSizes t)]"
    using assms(1,2) by (simp add: generate_onClick_def Let_def colors_loop_ids)
  moreover have "distinct (map rnd [0 ..< length (selectedColors t) * length (selectedSizes t)])"
    using assms(3) by (simp add: distinct_map atLeast0LessThan)
  ultimately show ?thesis by simp
qed

lemma length_filter_distinct:
  "distinct (map f xs) \<Longrightarrow> i \<in> set (map f xs) \<Longrightarrow>
   Suc (length (filter (\<lambda>w. f w \<noteq> i) xs)) = length xs"
proof (induction xs)
  case Nil
  then show ?case by simp
next
  case (Cons x xs)
  show ?case
  proof (cases "f x = i")
    case True
    with Cons.prems have "\<forall>w\<in>set xs. f w \<noteq> i"
      by (auto simp: image_iff)
    then have "filter (\<lambda>w. f w \<noteq> i) xs = xs"
      by (simp add: filter_id_conv)
    with True show ?thesis by simp
  next
    case False
    with Cons.prems have "i \<in> set (map f xs)" by auto
    with Cons.IH Cons.prems False show ?thesis by simp
  qed
qed

lemma filter_unique:
  "distinct (map f xs) \<Longrightarrow> i \<in> set (map f xs) \<Longrightarrow>
   \<exists>ys w zs. xs = ys @ w # zs \<and> f w = i \<and> filter (\<lambda>x. f x \<noteq> i) xs = ys @ zs"
proof (induction xs)
  case Nil
  then show ?case by simp
next
  case (Cons x xs)
  show ?case
  proof (cases "f x = i")
    case True
    with Cons.prems have "\<forall>w\<in>set xs. f w \<noteq> i"
      by (auto simp: image_iff)
    then have "filter (\<lambda>w. f w \<noteq> i) xs = xs"
      by (simp add: filter_id_conv)
    with True have "x # xs = [] @ x # xs \<and> f x = i
        \<and> filter (\<lambda>w. f w \<noteq> i) (x # xs) = [] @ xs"
      by simp
    then show ?thesis by (intro exI)
  next
    case False
    with Cons.prems have "distinct (map f xs)" "i \<in> set (map f xs)"
      by auto
    from Cons.IH [OF this] obtain ys w zs
      where d: "xs = ys @ w # zs" "f w = i" "filter (\<lambda>x. f x \<noteq> i) xs = ys @ zs"
      by (elim exE conjE)
    with False have "x # xs = (x # ys) @ w # zs \<and> f w = i
        \<and> filter (\<lambda>w. f w \<noteq> i) (x # xs) = (x # ys) @ zs"
      by simp
    then show ?thesis by (intro exI)
  qed
qed

lemma filter_absent:
  "i \<notin> set (map f xs) \<Longrightarrow> filter (\<lambda>w. f w \<noteq> i) xs = xs"
  by (induction xs) auto

lemma inj_example_rnd: "inj_on example_rnd {..<4}"
proof -
  have "map example_rnd [0..<4] = [''v0'', ''v1'', ''v2'', ''v3'']"
    by code_simp
  then have "distinct (map example_rnd [0..<4])"
    by simp
  then show ?thesis
    by (simp add: distinct_map atLeast0LessThan)
qed


text \<open>
  Claim C8. In a collection whose identifiers are pairwise distinct, removing by an
  identifier that a row carries deletes exactly that row: the collection gets shorter by
  one and is the old one without the row, the other rows unchanged and in their order.
  When no row carries the identifier the collection is unchanged, so a second removal
  with the same identifier changes nothing. The identifiers of a generated collection
  are pairwise distinct whenever the draws of the random source are.
\<close>

theorem removeVariant_by_id:
  "(distinct (map v_id (generatedVariants s))
      \<and> v_id v \<in> set (map v_id (generatedVariants s)) \<longrightarrow>
      Suc (length (generatedVariants (snd (deleteVariant_onClick v s))))
        = length (generatedVariants s)
      \<and> (\<exists>ys w zs. generatedVariants s = ys @ w # zs \<and> v_id w = v_id v
            \<and> generatedVariants (snd (deleteVariant_onClick v s)) = ys @ zs))
   \<and> filter (\<lambda>w. v_id w \<noteq> v_id v) (generatedVariants (snd (deleteVariant_onClick v s)))
       = filter (\<lambda>w. v_id w \<noteq> v_id v) (generatedVariants s)
   \<and> (v_id v \<notin> set (map v_id (generatedVariants s)) \<longrightarrow>
        generatedVariants (snd (deleteVariant_onClick v s)) = generatedVariants s)
   \<and> generatedVariants (snd (deleteVariant_onClick v (snd (deleteVariant_onClick v s))))
       = generatedVariants (snd (deleteVariant_onClick v s))
   \<and> (selectedColors t \<noteq> [] \<and> selectedSizes t \<noteq> []
        \<and> inj_on rnd {..<length (selectedColors t) * length (selectedSizes t)} \<longrightarrow>
        distinct (map v_id (generatedVariants (snd (generate_onClick rnd t)))))"
proof (intro conjI impI)
  assume h: "distinct (map v_id (generatedVariants s))
      \<and> v_id v \<in> set (map v_id (generatedVariants s))"
  then show "Suc (length (generatedVariants (snd (deleteVariant_onClick v s))))
        = length (generatedVariants s)"
    using length_filter_distinct [of v_id "generatedVariants s" "v_id v"]
    by (simp add: deleteVariant_onClick_def)
  from h show "\<exists>ys w zs. generatedVariants s = ys @ w # zs \<and> v_id w = v_id v
            \<and> generatedVariants (snd (deleteVariant_onClick v s)) = ys @ zs"
    using filter_unique [of v_id "generatedVariants s" "v_id v"]
    by (simp add: deleteVariant_onClick_def)
next
  show "filter (\<lambda>w. v_id w \<noteq> v_id v) (generatedVariants (snd (deleteVariant_onClick v s)))
       = filter (\<lambda>w. v_id w \<noteq> v_id v) (generatedVariants s)"
    by (simp add: deleteVariant_onClick_def)
next
  assume "v_id v \<notin> set (map v_id (generatedVariants s))"
  then show "generatedVariants (snd (deleteVariant_onClick v s)) = generatedVariants s"
    using filter_absent [of "v_id v" v_id "generatedVariants s"]
    by (simp add: deleteVariant_onClick_def)
next
  show "generatedVariants (snd (deleteVariant_onClick v (snd (deleteVariant_onClick v s))))
       = generatedVariants (snd (deleteVariant_onClick v s))"
    by (simp add: deleteVariant_onClick_def)
next
  assume "selectedColors t \<noteq> [] \<and> selectedSizes t \<noteq> []
        \<and> inj_on rnd {..<length (selectedColors t) * length (selectedSizes t)}"
  then show "distinct (map v_id (generatedVariants (snd (generate_onClick rnd t))))"
    using generated_ids_distinct [of t rnd] by simp
qed

theorem removeVariant_by_id_witness:
  "inj_on example_rnd {..<4}
   \<and> distinct (map v_id (generatedVariants example_generated))
   \<and> length (generatedVariants example_generated) = 4
   \<and> v_id (hd (generatedVariants example_generated))
       \<in> set (map v_id (generatedVariants example_generated))
   \<and> length (generatedVariants
         (snd (deleteVariant_onClick (hd (generatedVariants example_generated))
                 example_generated))) = 3
   \<and> map v_id (generatedVariants
         (snd (deleteVariant_onClick (hd (generatedVariants example_generated))
                 example_generated))) = [''v1'', ''v2'', ''v3'']
   \<and> v_id example_foreign \<notin> set (map v_id (generatedVariants example_generated))
   \<and> generatedVariants (snd (deleteVariant_onClick example_foreign example_generated))
       = generatedVariants example_generated"
proof -
  note ex = example_generated_def example_state_def initialState_def generate_onClick_def
    Let_def new_variant_def example_rnd_values example_foreign_def
  note at_hd = removeVariant_by_id
    [of example_generated "hd (generatedVariants example_generated)" example_state example_rnd]
  note at_foreign = removeVariant_by_id
    [of example_generated example_foreign example_state example_rnd]
  have sel: "selectedColors example_state \<noteq> []" "selectedSizes example_state \<noteq> []"
    and n: "length (selectedColors example_state) * length (selectedSizes example_state) = 4"
    by (simp_all add: example_state_def initialState_def)
  from inj_example_rnd n
  have inj: "inj_on example_rnd
      {..<length (selectedColors example_state) * length (selectedSizes example_state)}"
    by simp
  from at_hd
  have "selectedColors example_state \<noteq> [] \<and> selectedSizes example_state \<noteq> []
        \<and> inj_on example_rnd
            {..<length (selectedColors example_state) * length (selectedSizes example_state)}
        \<longrightarrow> distinct (map v_id (generatedVariants (snd (generate_onClick example_rnd example_state))))"
    by (elim conjE) assumption
  with sel inj have d: "distinct (map v_id (generatedVariants example_generated))"
    by (simp add: example_generated_def)
  have ids: "map v_id (generatedVariants example_generated) = [''v0'', ''v1'', ''v2'', ''v3'']"
    by (simp add: ex)
  have a: "length (generatedVariants example_generated) = 4"
    using arg_cong [OF ids, of length] by simp
  have h: "v_id (hd (generatedVariants example_generated)) = ''v0''"
    by (simp add: ex)
  have present: "v_id (hd (generatedVariants example_generated))
      \<in> set (map v_id (generatedVariants example_generated))"
    by (simp add: ids h)
  from at_hd
  have "distinct (map v_id (generatedVariants example_generated))
      \<and> v_id (hd (generatedVariants example_generated))
          \<in> set (map v_id (generatedVariants example_generated)) \<longrightarrow>
      Suc (length (generatedVariants
             (snd (deleteVariant_onClick (hd (generatedVariants example_generated))
                     example_generated))))
        = length (generatedVariants example_generated)
      \<and> (\<exists>ys w zs. generatedVariants example_generated = ys @ w # zs
            \<and> v_id w = v_id (hd (generatedVariants example_generated))
            \<and> generatedVariants
                 (snd (deleteVariant_onClick (hd (generatedVariants example_generated))
                         example_generated)) = ys @ zs)"
    by (elim conjE) assumption
  with d present
  have "Suc (length (generatedVariants
             (snd (deleteVariant_onClick (hd (generatedVariants example_generated))
                     example_generated))))
        = length (generatedVariants example_generated)"
    by simp
  with a have b: "length (generatedVariants
         (snd (deleteVariant_onClick (hd (generatedVariants example_generated))
                 example_generated))) = 3"
    by simp
  have c: "map v_id (generatedVariants
         (snd (deleteVariant_onClick (hd (generatedVariants example_generated))
                 example_generated))) = [''v1'', ''v2'', ''v3'']"
    by (simp add: ex deleteVariant_onClick_def)
  have absent: "v_id example_foreign \<notin> set (map v_id (generatedVariants example_generated))"
    by (simp add: ids) (simp add: example_foreign_def new_variant_def)
  from at_foreign
  have "v_id example_foreign \<notin> set (map v_id (generatedVariants example_generated)) \<longrightarrow>
      generatedVariants (snd (deleteVariant_onClick example_foreign example_generated))
        = generatedVariants example_generated"
    by (elim conjE) assumption
  from this absent
  have e: "generatedVariants (snd (deleteVariant_onClick example_foreign example_generated))
       = generatedVariants example_generated"
    by (rule mp)
  show ?thesis
    using inj_example_rnd d a present b c absent e by - (intro conjI, assumption+)
qed

subsection \<open>The payload of a submission\<close>

text \<open>
  Claim C10. The payload sent on submission has \<open>hasVariants\<close> true exactly when the
  collection of generated variants is not empty; its \<open>variants\<close> field is undefined when
  the collection is empty and is the collection itself otherwise.
\<close>

theorem submit_payload:
  "hasVariants (request_body (onSubmit_request isEditing productId vals s))
     = (generatedVariants s \<noteq> [])
   \<and> (generatedVariants s = [] \<longrightarrow>
        variants (request_body (onSubmit_request isEditing productId vals s)) = None)
   \<and> (generatedVariants s \<noteq> [] \<longrightarrow>
        variants (request_body (onSubmit_request isEditing productId vals s))
          = Some (generatedVariants s))"
  by (simp add: onSubmit_request_def productData_def)


theorem submit_payload_witness:
  "generatedVariants initialState = []
   \<and> \<not> hasVariants (request_body (onSubmit_request True ''7'' defaultValues initialState))
   \<and> variants (request_body (onSubmit_request True ''7'' defaultValues initialState)) = None
   \<and> generatedVariants example_generated \<noteq> []
   \<and> hasVariants (request_body (onSubmit_request True ''7'' defaultValues example_generated))
   \<and> variants (request_body (onSubmit_request True ''7'' defaultValues example_generated))
       = Some (generatedVariants example_generated)"
proof -
  have e: "generatedVariants initialState = []"
    by (simp add: initialState_def)
  have n: "generatedVariants example_generated \<noteq> []"
    by (simp add: example_generated_def example_state_def initialState_def
        generate_onClick_def Let_def)
  from e n submit_payload [of True "''7''" defaultValues initialState]
    submit_payload [of True "''7''" defaultValues example_generated]
  show ?thesis by simp
qed


subsection \<open>Adding a custom attribute\<close>

lemma trim_examples:
  "trim ''  Teal '' = ''Teal''" "trim ''Teal'' = ''Teal''" "trim '' XS'' = ''XS''"
  "trim ''XS  '' = ''XS''" "trim ''   '' = []" "trim ''  '' = []" "trim '' Red'' = ''Red''"
  "trim (CHR 0xA0 # ''Navy'') = ''Navy''" "trim [CHR 0xA0, CHR '' ''] = []"
  by code_simp+

text \<open>No handler selects the empty label: the selections start empty, the predefined
  labels are not empty, and a custom label is added only when its trimmed form is not
  empty.\<close>

lemma empty_label_never_selected:
  assumes "[] \<notin> set (selectedColors s)" and "[] \<notin> set (selectedSizes s)"
  shows "[] \<notin> set (selectedColors (snd (customColor_onKeyDown key s)))"
    and "[] \<notin> set (selectedColors (snd (addColor_onClick s)))"
    and "[] \<notin> set (selectedColors (customColorBadge_onClick l s))"
    and "l \<noteq> [] \<Longrightarrow> [] \<notin> set (selectedColors (colorBadge_onClick l s))"
    and "[] \<notin> set (selectedSizes (snd (customSize_onKeyDown key s)))"
    and "[] \<notin> set (selectedSizes (snd (addSize_onClick s)))"
    and "[] \<notin> set (selectedSizes (customSizeBadge_onClick l s))"
    and "l \<noteq> [] \<Longrightarrow> [] \<notin> set (selectedSizes (sizeBadge_onClick l s))"
  using assms
  by (auto simp: customColor_onKeyDown_def addColor_onClick_def customColorBadge_onClick_def
      colorBadge_onClick_def customSize_onKeyDown_def addSize_onClick_def
      customSizeBadge_onClick_def sizeBadge_onClick_def)

text \<open>
  Claim C7. Adding a custom color or size, by the Enter key or by the button, works on
  the trimmed input. When the trimmed input is empty nothing changes. When it is already
  selected (the very same string) the notice "already added" is raised and nothing
  changes. Otherwise it is appended at the end of the selection and the input is
  cleared. So after a label was added, entering an input with the same trimmed label
  again raises the notice and leaves the selection as it is.
\<close>

theorem addCustomAttribute_cases:
  "(trim (customColor s) = [] \<longrightarrow>
      customColor_onKeyDown key s = ([], s) \<and> snd (addColor_onClick s) = s
      \<and> ([] \<notin> set (selectedColors s) \<longrightarrow> addColor_onClick s = ([], s)))
   \<and> (trim (customColor s) \<noteq> [] \<and> trim (customColor s) \<in> set (selectedColors s) \<longrightarrow>
        customColor_onKeyDown ''Enter'' s = ([colorAlreadyAdded], s)
        \<and> addColor_onClick s = ([colorAlreadyAdded], s))
   \<and> (trim (customColor s) \<noteq> [] \<and> trim (customColor s) \<notin> set (selectedColors s) \<longrightarrow>
        customColor_onKeyDown ''Enter'' s
          = ([], s\<lparr>selectedColors := selectedColors s @ [trim (customColor s)],
                    customColor := []\<rparr>)
        \<and> addColor_onClick s
          = ([], s\<lparr>selectedColors := selectedColors s @ [trim (customColor s)],
                    customColor := []\<rparr>))
   \<and> (trim raw \<noteq> [] \<and> trim raw \<notin> set (selectedColors s) \<and> trim raw2 = trim raw \<longrightarrow>
        customColor_onKeyDown ''Enter''
            (customColor_onChange raw2
              (snd (customColor_onKeyDown ''Enter'' (customColor_onChange raw s))))
          = ([colorAlreadyAdded],
             customColor_onChange raw2
               (snd (customColor_onKeyDown ''Enter'' (customColor_onChange raw s))))
        \<and> addColor_onClick
            (customColor_onChange raw2 (snd (addColor_onClick (customColor_onChange raw s))))
          = ([colorAlreadyAdded],
             customColor_onChange raw2 (snd (addColor_onClick (customColor_onChange raw s)))))
   \<and> (trim (customSize s) = [] \<longrightarrow>
      customSize_onKeyDown key s = ([], s) \<and> snd (addSize_onClick s) = s
      \<and> ([] \<notin> set (selectedSizes s) \<longrightarrow> addSize_onClick s = ([], s)))
   \<and> (trim (customSize s) \<noteq> [] \<and> trim (customSize s) \<in> set (selectedSizes s) \<longrightarrow>
        customSize_onKeyDown ''Enter'' s = ([sizeAlreadyAdded], s)
        \<and> addSize_onClick s = ([sizeAlreadyAdded], s))
   \<and> (trim (customSize s) \<noteq> [] \<and> trim (customSize s) \<notin> set (selectedSizes s) \<longrightarrow>
        customSize_onKeyDown ''Enter'' s
          = ([], s\<lparr>selectedSizes := selectedSizes s @ [trim (customSize s)],
                    customSize := []\<rparr>)
        \<and> addSize_onClick s
          = ([], s\<lparr>selectedSizes := selectedSizes s @ [trim (customSize s)],
                    customSize := []\<rparr>))
   \<and> (trim raw \<noteq> [] \<and> trim raw \<notin> set (selectedSizes s) \<and> trim raw2 = trim raw \<longrightarrow>
        customSize_onKeyDown ''Enter''
            (customSize_onChange raw2
              (snd (customSize_onKeyDown ''Enter'' (customSize_onChange raw s))))
          = ([sizeAlreadyAdded],
             customSize_onChange raw2
               (snd (customSize_onKeyDown ''Enter'' (customSize_onChange raw s))))
        \<and> addSize_onClick
            (customSize_onChange raw2 (snd (addSize_onClick (customSize_onChange raw s))))
          = ([sizeAlreadyAdded],
             customSize_onChange raw2 (snd (addSize_onClick (customSize_onChange raw s)))))"
proof (intro conjI)
  show "trim (customColor s) = [] \<longrightarrow>
      customColor_onKeyDown key s = ([], s) \<and> snd (addColor_onClick s) = s
      \<and> ([] \<notin> set (selectedColors s) \<longrightarrow> addColor_onClick s = ([], s))"
    by (simp add: customColor_onKeyDown_def addColor_onClick_def)
  show "trim (customSize s) = [] \<longrightarrow>
      customSize_onKeyDown key s = ([], s) \<and> snd (addSize_onClick s) = s
      \<and> ([] \<notin> set (selectedSizes s) \<longrightarrow> addSize_onClick s = ([], s))"
    by (simp add: customSize_onKeyDown_def addSize_onClick_def)
qed (simp_all add: customColor_onKeyDown_def addColor_onClick_def customColor_onChange_def
    customSize_onKeyDown_def addSize_onClick_def customSize_onChange_def)

theorem addCustomAttribute_cases_witness:
  "fst (addColor_onClick example_teal) = []
   \<and> selectedColors (snd (addColor_onClick example_teal)) = [''Red'', ''Blue'', ''Teal'']
   \<and> customColor (snd (addColor_onClick example_teal)) = []
   \<and> addColor_onClick (customColor_onChange ''Teal'' (snd (addColor_onClick example_teal)))
       = ([colorAlreadyAdded], customColor_onChange ''Teal'' (snd (addColor_onClick example_teal)))
   \<and> customColor_onKeyDown ''Enter'' (customColor_onChange '' Red'' example_state)
       = ([colorAlreadyAdded], customColor_onChange '' Red'' example_state)
   \<and> selectedSizes (snd (customSize_onKeyDown ''Enter'' example_xs)) = [''S'', ''M'', ''XS'']
   \<and> selectedColors (snd (addColor_onClick example_nbsp)) = [''Red'', ''Blue'', ''Navy'']
   \<and> customColor_onKeyDown ''Enter'' example_blank = ([], example_blank)
   \<and> addSize_onClick example_blank = ([], example_blank)"
proof -
  note ex = example_teal_def example_xs_def example_blank_def example_nbsp_def example_state_def
    initialState_def customColor_onChange_def customSize_onChange_def trim_examples
  have teal: "trim (customColor example_teal) \<noteq> []
      \<and> trim (customColor example_teal) \<notin> set (selectedColors example_teal)"
    by (simp add: ex)
  from addCustomAttribute_cases [of example_teal "''Enter''" "''Teal''" "''Teal''"]
  have "trim (customColor example_teal) \<noteq> []
      \<and> trim (customColor example_teal) \<notin> set (selectedColors example_teal) \<longrightarrow>
        customColor_onKeyDown ''Enter'' example_teal
          = ([], example_teal\<lparr>selectedColors :=
                     selectedColors example_teal @ [trim (customColor example_teal)],
                   customColor := []\<rparr>)
        \<and> addColor_onClick example_teal
          = ([], example_teal\<lparr>selectedColors :=
                     selectedColors example_teal @ [trim (customColor example_teal)],
                   customColor := []\<rparr>)"
    by (elim conjE) assumption
  with teal have fresh: "addColor_onClick example_teal
          = ([], example_teal\<lparr>selectedColors :=
                     selectedColors example_teal @ [trim (customColor example_teal)],
                   customColor := []\<rparr>)"
    by - (elim impE conjE; (intro conjI)?; assumption)
  have a: "fst (addColor_onClick example_teal) = []"
    "selectedColors (snd (addColor_onClick example_teal)) = [''Red'', ''Blue'', ''Teal'']"
    "customColor (snd (addColor_onClick example_teal)) = []"
    by (simp_all add: fresh) (simp add: ex)
  have again: "trim ''  Teal '' \<noteq> [] \<and> trim ''  Teal '' \<notin> set (selectedColors example_state)
      \<and> trim ''Teal'' = trim ''  Teal ''"
    by (simp add: ex)
  from addCustomAttribute_cases [of example_state "''Enter''" "''  Teal ''" "''Teal''"]
  have "trim ''  Teal '' \<noteq> [] \<and> trim ''  Teal '' \<notin> set (selectedColors example_state)
      \<and> trim ''Teal'' = trim ''  Teal '' \<longrightarrow>
        customColor_onKeyDown ''Enter''
            (customColor_onChange ''Teal''
              (snd (customColor_onKeyDown ''Enter'' (customColor_onChange ''  Teal '' example_state))))
          = ([colorAlreadyAdded],
             customColor_onChange ''Teal''
               (snd (customColor_onKeyDown ''Enter''
                      (customColor_onChange ''  Teal '' example_state))))
        \<and> addColor_onClick
            (customColor_onChange ''Teal''
              (snd (addColor_onClick (customColor_onChange ''  Teal '' example_state))))
          = ([colorAlreadyAdded],
             customColor_onChange ''Teal''
               (snd (addColor_onClick (customColor_onChange ''  Teal '' example_state))))"
    by (elim conjE) assumption
  with again have b: "addColor_onClick
        (customColor_onChange ''Teal'' (snd (addColor_onClick example_teal)))
      = ([colorAlreadyAdded],
         customColor_onChange ''Teal'' (snd (addColor_onClick example_teal)))"
    unfolding example_teal_def by - (elim impE conjE; (intro conjI)?; assumption)
  have red: "trim (customColor (customColor_onChange '' Red'' example_state)) \<noteq> []
      \<and> trim (customColor (customColor_onChange '' Red'' example_state))
          \<in> set (selectedColors (customColor_onChange '' Red'' example_state))"
    by (simp add: ex)
  from addCustomAttribute_cases
    [of "customColor_onChange '' Red'' example_state" "''Enter''" "''Teal''" "''Teal''"]
  have "trim (customColor (customColor_onChange '' Red'' example_state)) \<noteq> []
      \<and> trim (customColor (customColor_onChange '' Red'' example_state))
          \<in> set (selectedColors (customColor_onChange '' Red'' example_state)) \<longrightarrow>
        customColor_onKeyDown ''Enter'' (customColor_onChange '' Red'' example_state)
          = ([colorAlreadyAdded], customColor_onChange '' Red'' example_state)
        \<and> addColor_onClick (customColor_onChange '' Red'' example_state)
          = ([colorAlreadyAdded], customColor_onChange '' Red'' example_state)"
    by (elim conjE) assumption
  with red have c: "customColor_onKeyDown ''Enter'' (customColor_onChange '' Red'' example_state)
       = ([colorAlreadyAdded], customColor_onChange '' Red'' example_state)"
    by - (elim impE conjE; (intro conjI)?; assumption)
  have xs: "trim (customSize example_xs) \<noteq> []
      \<and> trim (customSize example_xs) \<notin> set (selectedSizes example_xs)"
    by (simp add: ex)
  from addCustomAttribute_cases [of example_xs "''Enter''" "''Teal''" "''Teal''"]
  have "trim (customSize example_xs) \<noteq> []
      \<and> trim (customSize example_xs) \<notin> set (selectedSizes example_xs) \<longrightarrow>
        customSize_onKeyDown ''Enter'' example_xs
          = ([], example_xs\<lparr>selectedSizes :=
                     selectedSizes example_xs @ [trim (customSize example_xs)],
                   customSize := []\<rparr>)
        \<and> addSize_onClick example_xs
          = ([], example_xs\<lparr>selectedSizes :=
                     selectedSizes example_xs @ [trim (customSize example_xs)],
                   customSize := []\<rparr>)"
    by (elim conjE) assumption
  with xs have "customSize_onKeyDown ''Enter'' example_xs
          = ([], example_xs\<lparr>selectedSizes :=
                     selectedSizes example_xs @ [trim (customSize example_xs)],
                   customSize := []\<rparr>)"
    by - (elim impE conjE; (intro conjI)?; assumption)
  then have d: "selectedSizes (snd (customSize_onKeyDown ''Enter'' example_xs))
      = [''S'', ''M'', ''XS'']"
    by (simp add: ex)
  have blank: "trim (customColor example_blank) = []" "trim (customSize example_blank) = []"
    "[] \<notin> set (selectedSizes example_blank)"
    by (simp_all add: ex)
  from addCustomAttribute_cases [of example_blank "''Enter''" "''Teal''" "''Teal''"]
  have "trim (customColor example_blank) = [] \<longrightarrow>
      customColor_onKeyDown ''Enter'' example_blank = ([], example_blank)
      \<and> snd (addColor_onClick example_blank) = example_blank
      \<and> ([] \<notin> set (selectedColors example_blank) \<longrightarrow>
           addColor_onClick example_blank = ([], example_blank))"

    by (elim conjE) assumption
  from this blank(1)
  have "customColor_onKeyDown ''Enter'' example_blank = ([], example_blank)
      \<and> snd (addColor_onClick example_blank) = example_blank
      \<and> ([] \<notin> set (selectedColors example_blank) \<longrightarrow>
           addColor_onClick example_blank = ([], example_blank))"
    by (rule mp)
  then have e: "customColor_onKeyDown ''Enter'' example_blank = ([], example_blank)"
    by (rule conjunct1)
  from addCustomAttribute_cases [of example_blank "''Enter''" "''Teal''" "''Teal''"]
  have "trim (customSize example_blank) = [] \<longrightarrow>
      customSize_onKeyDown ''Enter'' example_blank = ([], example_blank)
      \<and> snd (addSize_onClick example_blank) = example_blank
      \<and> ([] \<notin> set (selectedSizes example_blank) \<longrightarrow>
           addSize_onClick example_blank = ([], example_blank))"
    by (elim conjE) assumption
  from this blank(2)
  have "customSize_onKeyDown ''Enter'' example_blank = ([], example_blank)
      \<and> snd (addSize_onClick example_blank) = example_blank
      \<and> ([] \<notin> set (selectedSizes example_blank) \<longrightarrow>
           addSize_onClick example_blank = ([], example_blank))"
    by (rule mp)
  then have "[] \<notin> set (selectedSizes example_blank) \<longrightarrow>
           addSize_onClick example_blank = ([], example_blank)"
    by (elim conjE) assumption
  from this blank(3) have f: "addSize_onClick example_blank = ([], example_blank)"
    by (rule mp)
  have nbsp: "trim (customColor example_nbsp) \<noteq> []
      \<and> trim (customColor example_nbsp) \<notin> set (selectedColors example_nbsp)"
    by (simp add: ex)
  from addCustomAttribute_cases [of example_nbsp "''Enter''" "''Teal''" "''Teal''"]
  have "trim (customColor example_nbsp) \<noteq> []
      \<and> trim (customColor example_nbsp) \<notin> set (selectedColors example_nbsp) \<longrightarrow>
        customColor_onKeyDown ''Enter'' example_nbsp
          = ([], example_nbsp\<lparr>selectedColors :=
                     selectedColors example_nbsp @ [trim (customColor example_nbsp)],
                   customColor := []\<rparr>)
        \<and> addColor_onClick example_nbsp
          = ([], example_nbsp\<lparr>selectedColors :=
                     selectedColors example_nbsp @ [trim (customColor example_nbsp)],
                   customColor := []\<rparr>)"
    by (elim conjE) assumption
  from this nbsp
  have "customColor_onKeyDown ''Enter'' example_nbsp
          = ([], example_nbsp\<lparr>selectedColors :=
                     selectedColors example_nbsp @ [trim (customColor example_nbsp)],
                   customColor := []\<rparr>)
        \<and> addColor_onClick example_nbsp
          = ([], example_nbsp\<lparr>selectedColors :=
                     selectedColors example_nbsp @ [trim (customColor example_nbsp)],
                   customColor := []\<rparr>)"
    by (rule mp)
  then have "addColor_onClick example_nbsp
          = ([], example_nbsp\<lparr>selectedColors :=
                     selectedColors example_nbsp @ [trim (customColor example_nbsp)],
                   customColor := []\<rparr>)"
    by (rule conjunct2)
  then have g: "selectedColors (snd (addColor_onClick example_nbsp))
      = [''Red'', ''Blue'', ''Navy'']"
    by (simp add: ex)
  show ?thesis
    using a b c d g e f by - (intro conjI, assumption+)
qed

subsection \<open>The steps of the checkout and the tabs of the product form\<close>

lemma step_handleNextStep:
  "step (handleNextStep s) =
     (if step s = Shipping \<and> shippingAddress_errors (shippingAddress (checkoutForm s)) = []
      then Payment
      else if step s = Payment \<and> paymentMethod_errors (paymentMethod (checkoutForm s)) = []
      then Review
      else step s)"
  by (simp add: handleNextStep_def trigger_shippingAddress_def trigger_paymentMethod_def Let_def)

text \<open>
  Claim C4, as amended. In the checkout, "Next" validates the field group bound to the
  current step: from a step other than the last it moves to the following step when the
  group has no error, and stays when it has one; and no click moves the checkout
  forward except a "Next" whose validation found no error, by exactly one step. In the
  product form the "Next" buttons of the tabs basic, pricing, inventory and category move
  to the following tab without validating anything and without touching the form.
\<close>

theorem checkout_advance_validates:
  "(step_errors s = [] \<and> step s \<noteq> Review \<longrightarrow>
      step_index (step (handleNextStep s)) = Suc (step_index (step s)))
   \<and> (step_errors s \<noteq> [] \<longrightarrow> step (handleNextStep s) = step s)
   \<and> (step_index (step s) < step_index (step (checkout_onClick c s)) \<longrightarrow>
        c = NextClick \<and> step_errors s = []
        \<and> step_index (step (checkout_onClick c s)) = Suc (step_index (step s)))
   \<and> (activeTab p = ''basic'' \<longrightarrow> activeTab (next_onClick p) = ''pricing'')
   \<and> (activeTab p = ''pricing'' \<longrightarrow> activeTab (next_onClick p) = ''inventory'')
   \<and> (activeTab p = ''inventory'' \<longrightarrow> activeTab (next_onClick p) = ''category'')
   \<and> (activeTab p = ''category'' \<longrightarrow> activeTab (next_onClick p) = ''media'')
   \<and> productForm (next_onClick p) = productForm p"
proof (intro conjI impI)
  assume "step_errors s = [] \<and> step s \<noteq> Review"
  then show "step_index (step (handleNextStep s)) = Suc (step_index (step s))"
    by (cases "step s") (simp_all add: step_handleNextStep step_errors_def)
next
  assume "step_errors s \<noteq> []"
  then show "step (handleNextStep s) = step s"
    by (cases "step s") (simp_all add: step_handleNextStep step_errors_def)
next
  assume up: "step_index (step s) < step_index (step (checkout_onClick c s))"
  show "c = NextClick"
    using up by (cases c; cases "step s") (simp_all add: handlePreviousStep_def)
next
  assume up: "step_index (step s) < step_index (step (checkout_onClick c s))"
  show "step_errors s = []"
    using up
    by (cases c; cases "step s")
       (simp_all add: handlePreviousStep_def step_handleNextStep step_errors_def split: if_splits)
next
  assume up: "step_index (step s) < step_index (step (checkout_onClick c s))"
  show "step_index (step (checkout_onClick c s)) = Suc (step_index (step s))"
    using up
    by (cases c; cases "step s")
       (simp_all add: handlePreviousStep_def step_handleNextStep split: if_splits)
qed (simp_all add: next_onClick_def)

theorem checkout_advance_validates_witness:
  "step example_checkout = Shipping \<and> step_errors example_checkout = []
   \<and> step (handleNextStep example_checkout) = Payment
   \<and> step_errors example_no_city = [(''shippingAddress.city'', ''City is required'')]
   \<and> step (handleNextStep example_no_city) = step example_no_city
   \<and> activeTab initialState = ''basic''
   \<and> activeTab (next_onClick initialState) = ''pricing''"
proof -
  note ex = example_checkout_def example_no_city_def checkout_initialState_def
    checkout_defaultValues_def
  have s: "step example_checkout = Shipping"
    by (simp add: ex)
  have ok: "step_errors example_checkout = []"
    by (simp add: ex step_errors_def shippingAddress_errors_def)
  have bad: "step_errors example_no_city = [(''shippingAddress.city'', ''City is required'')]"
    by (simp add: ex step_errors_def shippingAddress_errors_def)
  have tab: "activeTab initialState = ''basic''"
    by (simp add: initialState_def)
  note at_checkout = checkout_advance_validates [of example_checkout NextClick initialState]
  from at_checkout
  have adv: "step_errors example_checkout = [] \<and> step example_checkout \<noteq> Review \<longrightarrow>
      step_index (step (handleNextStep example_checkout))
        = Suc (step_index (step example_checkout))"
    by (elim conjE) assumption
  from at_checkout
  have nxt: "activeTab initialState = ''basic'' \<longrightarrow>
      activeTab (next_onClick initialState) = ''pricing''"
    by (elim conjE) assumption
  from adv s ok have "step_index (step (handleNextStep example_checkout)) = 1"
    by simp
  then have a: "step (handleNextStep example_checkout) = Payment"
    by (cases "step (handleNextStep example_checkout)") simp_all
  from checkout_advance_validates [of example_no_city NextClick initialState]
  have "step_errors example_no_city \<noteq> [] \<longrightarrow>
      step (handleNextStep example_no_city) = step example_no_city"
    by (elim conjE) assumption
  with bad have b: "step (handleNextStep example_no_city) = step example_no_city"
    by simp
  from nxt tab have c: "activeTab (next_onClick initialState) = ''pricing''"
    by (rule mp)
  show ?thesis
    using s ok a bad b tab c by - (intro conjI, assumption+)
qed

text \<open>The product form opens on the tab basic with an empty name, which the schema
  rejects; "Next" moves to the tab pricing all the same.\<close>

theorem product_next_counterexample:
  "activeTab initialState = ''basic'' \<and> \<not> name_ok (productForm initialState)
   \<and> activeTab (next_onClick initialState) = ''pricing''"
  by (simp add: initialState_def defaultValues_def name_ok_def next_onClick_def)

text \<open>
  Claim C5. In the checkout on the shipping step, when one of the required fields of the
  address (address line 1, city, state, postal code, country) is the empty string,
  "Next" leaves the step at shipping.
\<close>

theorem shipping_blocked:
  assumes "step s = Shipping"
    and "addressLine1 (shippingAddress (checkoutForm s)) = []
         \<or> city (shippingAddress (checkoutForm s)) = []
         \<or> state (shippingAddress (checkoutForm s)) = []
         \<or> postalCode (shippingAddress (checkoutForm s)) = []
         \<or> country (shippingAddress (checkoutForm s)) = []"
  shows "step (handleNextStep s) = Shipping"
  using assms by (auto simp: step_handleNextStep shippingAddress_errors_def)


theorem shipping_blocked_witness:
  "step example_no_city = Shipping
   \<and> city (shippingAddress (checkoutForm example_no_city)) = []
   \<and> step (handleNextStep example_no_city) = Shipping"
proof -
  note ex = example_no_city_def checkout_initialState_def checkout_defaultValues_def
  have s: "step example_no_city = Shipping"
    by (simp add: ex)
  have c: "city (shippingAddress (checkoutForm example_no_city)) = []"
    by (simp add: ex)
  then have h: "addressLine1 (shippingAddress (checkoutForm example_no_city)) = []
         \<or> city (shippingAddress (checkoutForm example_no_city)) = []
         \<or> state (shippingAddress (checkoutForm example_no_city)) = []
         \<or> postalCode (shippingAddress (checkoutForm example_no_city)) = []
         \<or> country (shippingAddress (checkoutForm example_no_city)) = []"
    by simp
  from s c shipping_blocked [OF s h] show ?thesis by simp
qed

text \<open>
  Claim C9. "Back" moves to the step before, whatever the form holds: it changes the
  step and nothing else, neither a value of the form nor its errors, so it validates
  nothing. On the first step it does nothing. From the review step it leads to the
  payment step with the payment method as it was chosen. The "Previous" buttons of the
  product form do the same on its tabs.
\<close>

theorem retreat_frame:
  "handlePreviousStep s =
     s\<lparr>step := (case step s of Shipping \<Rightarrow> Shipping | Payment \<Rightarrow> Shipping | Review \<Rightarrow> Payment)\<rparr>
   \<and> checkoutForm (handlePreviousStep s) = checkoutForm s
   \<and> errors (handlePreviousStep s) = errors s
   \<and> (step s = Shipping \<longrightarrow> handlePreviousStep s = s)
   \<and> (step s = Review \<longrightarrow>
        step (handlePreviousStep s) = Payment
        \<and> paymentMethod (checkoutForm (handlePreviousStep s)) = paymentMethod (checkoutForm s))
   \<and> previous_onClick p =
        p\<lparr>activeTab :=
            (if activeTab p = ''pricing'' then ''basic''
             else if activeTab p = ''inventory'' then ''pricing''
             else if activeTab p = ''category'' then ''inventory''
             else if activeTab p = ''media'' then ''category''
             else if activeTab p = ''variants'' then ''media''
             else activeTab p)\<rparr>
   \<and> (activeTab p = ''basic'' \<longrightarrow> previous_onClick p = p)"
proof -
  have a: "handlePreviousStep s =
     s\<lparr>step := (case step s of Shipping \<Rightarrow> Shipping | Payment \<Rightarrow> Shipping | Review \<Rightarrow> Payment)\<rparr>"
    by (cases "step s") (simp_all add: handlePreviousStep_def)
  have b: "previous_onClick p =
        p\<lparr>activeTab :=
            (if activeTab p = ''pricing'' then ''basic''
             else if activeTab p = ''inventory'' then ''pricing''
             else if activeTab p = ''category'' then ''inventory''
             else if activeTab p = ''media'' then ''category''
             else if activeTab p = ''variants'' then ''media''
             else activeTab p)\<rparr>"
    by (simp add: previous_onClick_def)
  have c: "activeTab p = ''basic'' \<longrightarrow> previous_onClick p = p"
    by (simp add: previous_onClick_def)
  have d: "checkoutForm (handlePreviousStep s) = checkoutForm s"
    "errors (handlePreviousStep s) = errors s"
    "step s = Shipping \<longrightarrow> handlePreviousStep s = s"
    "step s = Review \<longrightarrow>
        step (handlePreviousStep s) = Payment
        \<and> paymentMethod (checkoutForm (handlePreviousStep s)) = paymentMethod (checkoutForm s)"
    by (simp_all add: handlePreviousStep_def)
  from a b c d show ?thesis by blast
qed

theorem retreat_frame_witness:
  "step example_review = Review
   \<and> step (handlePreviousStep example_review) = Payment
   \<and> paymentMethod (checkoutForm (handlePreviousStep example_review)) = Some Cod
   \<and> checkoutForm (handlePreviousStep example_review) = checkoutForm example_review
   \<and> step checkout_initialState = Shipping
   \<and> handlePreviousStep checkout_initialState = checkout_initialState
   \<and> activeTab initialState = ''basic''
   \<and> previous_onClick initialState = initialState"
proof -
  note ex = example_review_def example_checkout_def checkout_initialState_def
    checkout_defaultValues_def
  have r: "step example_review = Review"
    by (simp add: ex)
  have m: "paymentMethod (checkoutForm example_review) = Some Cod"
    by (simp add: ex)
  have s0: "step checkout_initialState = Shipping"
    by (simp add: ex)
  have t0: "activeTab initialState = ''basic''"
    by (simp add: initialState_def)
  note at_review = retreat_frame [of example_review initialState]
  from at_review
  have rv: "step example_review = Review \<longrightarrow>
        step (handlePreviousStep example_review) = Payment
        \<and> paymentMethod (checkoutForm (handlePreviousStep example_review))
            = paymentMethod (checkoutForm example_review)"
    by (elim conjE) assumption
  from at_review
  have fr: "checkoutForm (handlePreviousStep example_review) = checkoutForm example_review"
    by (elim conjE) assumption
  from at_review
  have pb: "activeTab initialState = ''basic'' \<longrightarrow> previous_onClick initialState = initialState"
    by (elim conjE) assumption
  from rv r m fr pb t0
  have a: "step (handlePreviousStep example_review) = Payment"
    "paymentMethod (checkoutForm (handlePreviousStep example_review)) = Some Cod"
    "checkoutForm (handlePreviousStep example_review) = checkoutForm example_review"
    "previous_onClick initialState = initialState"
    by simp_all
  from retreat_frame [of checkout_initialState initialState]
  have "step checkout_initialState = Shipping \<longrightarrow>
      handlePreviousStep checkout_initialState = checkout_initialState"
    by (elim conjE) assumption
  with s0 have b: "handlePreviousStep checkout_initialState = checkout_initialState"
    by simp
  show ?thesis
    using r a s0 b t0 by - (intro conjI, assumption+)
qed

end
